theory Spec2Isabelle
  imports Complex_Main
begin

section \<open>The inventory ledger of store\_manager.py\<close>

text \<open>
  The program keeps one workbook, inventory.xlsx, with three sheets: products,
  transactions and stock\_log. Every operation reads the sheets through pandas, changes a
  data frame and writes all three sheets back. The embedding keeps that shape: a
  \<open>store\<close> is the content of the workbook, a \<open>product list\<close> is the data frame that
  \<open>load_products\<close> returns, and every operation takes the store and returns the new one.

  What is abstracted, once and for all:
  \<^item> A Python float is a \<open>real\<close>, an infinity or NaN (\<open>pyfloat\<close>) in the columns of
    a data frame; the prices and totals of the forms and of the cart are finite, hence
    \<open>real\<close>. Python ints are \<open>int\<close>.
  \<^item> A Python string is a \<open>string\<close> of its UTF-8 bytes, so the program's Chinese
    literals are written as byte lists.
  \<^item> \<open>uuid.uuid4()\<close> and \<open>datetime.now()\<close> are inputs of the operation that calls them.
  \<^item> The workbook exists and is readable: the script runs \<open>load_products()\<close>, hence
    \<open>ensure_inventory_file()\<close>, at its top before any operation. Reading a sheet gives
    back the values written to it.
\<close>

subsection \<open>Data\<close>

datatype py_error = TypeError | RegexError | OSError | ValueError

text \<open>
  A value of a float column: a finite number, one of the two infinities, or NaN, which is
  pandas' missing value in such a column.
\<close>

datatype pyfloat = Fin real | PosInf | NegInf | NaN

text \<open>
  A row of the products sheet as \<open>save_products\<close> writes it: the fourteen columns of
  \<open>COLUMN_MAP\<close>, in the order of \<open>CHINESE_HEADERS_ORDER\<close>. A text cell is a string, the
  empty string standing for an empty cell. \<open>expiry_date\<close> is not a key of \<open>COLUMN_MAP\<close>,
  so \<open>reindex(columns=CHINESE_HEADERS_ORDER)\<close> never writes it.
\<close>

record sheet_row =
  c_category :: string
  c_id :: string
  c_name :: string
  c_barcode :: string
  c_bulk_price :: pyfloat
  c_bulk_quantity :: int
  c_purchase_price :: pyfloat
  c_price :: pyfloat
  c_profit_margin :: string
  c_stock :: int
  c_location :: string
  c_supplier :: string
  c_image_path :: string
  c_notes :: string

text \<open>
  A row of the data frame that \<open>load_products\<close> returns (internal column names).
  \<open>None\<close> is pandas' missing value (NaN/None) in a text column.
\<close>

record product =
  id_field :: string
  barcode :: string
  name :: "string option"
  category :: "string option"
  purchase_price :: pyfloat
  bulk_price :: pyfloat
  bulk_quantity :: int
  price :: pyfloat
  profit_margin :: "string option"
  stock :: int
  location :: "string option"
  supplier :: "string option"
  image_path :: "string option"
  notes_field :: "string option"
  expiry_date :: "string option"

record stock_log_entry =
  log_id :: string
  log_datetime :: string
  log_barcode :: string
  log_name :: "string option"
  change :: int
  before_stock :: int
  after_stock :: int
  log_type :: string
  log_operator :: string
  log_note :: string

text \<open>A cart line, as the POS page builds it.\<close>

record item =
  it_id :: string
  it_barcode :: string
  it_name :: "string option"
  it_price :: real
  it_qty :: int
  it_subtotal :: real

record txn =
  txn_id :: string
  txn_datetime :: string
  txn_items :: "item list"
  txn_total :: real
  txn_paid :: real
  txn_change :: real
  txn_operator :: string
  txn_note :: string

record store =
  products :: "sheet_row list"
  transactions :: "txn list"
  stock_log :: "stock_log_entry list"

subsection \<open>Cells and strings\<close>

text \<open>An empty cell reads as a missing value; a missing value is written as an empty cell.\<close>

definition read_text :: "string \<Rightarrow> string option" where
  "read_text s = (if s = [] then None else Some s)"

definition write_text :: "string option \<Rightarrow> string" where
  "write_text v = (case v of None \<Rightarrow> [] | Some s \<Rightarrow> s)"

text \<open>
  \<open>str.strip()\<close> removes the characters for which \<open>str.isspace\<close> holds from both ends.
  A string being its UTF-8 bytes, each such character is a sequence of one, two or three
  bytes: U+0009 to U+000D, U+001C to U+0020, U+0085, U+00A0, U+1680, U+2000 to U+200A,
  U+2028, U+2029, U+202F, U+205F and U+3000.
\<close>

definition space_chars :: "string list" where
  "space_chars =
     [[CHR 0x09], [CHR 0x0A], [CHR 0x0B], [CHR 0x0C], [CHR 0x0D],
      [CHR 0x1C], [CHR 0x1D], [CHR 0x1E], [CHR 0x1F], [CHR 0x20],
      [CHR 0xC2, CHR 0x85], [CHR 0xC2, CHR 0xA0],
      [CHR 0xE1, CHR 0x9A, CHR 0x80],
      [CHR 0xE2, CHR 0x80, CHR 0x80], [CHR 0xE2, CHR 0x80, CHR 0x81],
      [CHR 0xE2, CHR 0x80, CHR 0x82], [CHR 0xE2, CHR 0x80, CHR 0x83],
      [CHR 0xE2, CHR 0x80, CHR 0x84], [CHR 0xE2, CHR 0x80, CHR 0x85],
      [CHR 0xE2, CHR 0x80, CHR 0x86], [CHR 0xE2, CHR 0x80, CHR 0x87],
      [CHR 0xE2, CHR 0x80, CHR 0x88], [CHR 0xE2, CHR 0x80, CHR 0x89],
      [CHR 0xE2, CHR 0x80, CHR 0x8A],
      [CHR 0xE2, CHR 0x80, CHR 0xA8], [CHR 0xE2, CHR 0x80, CHR 0xA9],
      [CHR 0xE2, CHR 0x80, CHR 0xAF], [CHR 0xE2, CHR 0x81, CHR 0x9F],
      [CHR 0xE3, CHR 0x80, CHR 0x80]]"

definition is_space :: "char \<Rightarrow> bool" where
  "is_space a = ([a] \<in> set space_chars)"

definition is_space2 :: "char \<Rightarrow> char \<Rightarrow> bool" where
  "is_space2 a b = ([a, b] \<in> set space_chars)"

definition is_space3 :: "char \<Rightarrow> char \<Rightarrow> char \<Rightarrow> bool" where
  "is_space3 a b c = ([a, b, c] \<in> set space_chars)"

text \<open>
  Removing the whitespace characters at the front, given the tests for a one-byte, a
  two-byte and a three-byte whitespace character there.
\<close>

fun lstrip_by ::
  "(char \<Rightarrow> bool) \<Rightarrow> (char \<Rightarrow> char \<Rightarrow> bool) \<Rightarrow> (char \<Rightarrow> char \<Rightarrow> char \<Rightarrow> bool) \<Rightarrow> string
     \<Rightarrow> string" where
  "lstrip_by p1 p2 p3 (a # b # c # s) =
     (if p1 a then lstrip_by p1 p2 p3 (b # c # s)
      else if p2 a b then lstrip_by p1 p2 p3 (c # s)
      else if p3 a b c then lstrip_by p1 p2 p3 s
      else a # b # c # s)"
| "lstrip_by p1 p2 p3 [a, b] =
     (if p1 a then lstrip_by p1 p2 p3 [b] else if p2 a b then [] else [a, b])"
| "lstrip_by p1 p2 p3 [a] = (if p1 a then [] else [a])"
| "lstrip_by p1 p2 p3 [] = []"

definition lstrip :: "string \<Rightarrow> string" where
  "lstrip s = lstrip_by is_space is_space2 is_space3 s"

text \<open>At the back the bytes of a character come in reverse.\<close>

definition rstrip :: "string \<Rightarrow> string" where
  "rstrip s =
     rev (lstrip_by is_space (\<lambda>a b. is_space2 b a) (\<lambda>a b c. is_space3 c b a) (rev s))"

definition strip :: "string \<Rightarrow> string" where
  "strip s = rstrip (lstrip s)"

text \<open>The positions of the rows that satisfy a mask: \<open>df.index[mask]\<close>.\<close>

definition index_where :: "('a \<Rightarrow> bool) \<Rightarrow> 'a list \<Rightarrow> nat list" where
  "index_where P xs = filter (\<lambda>i. P (xs ! i)) [0..<length xs]"

text \<open>The program's messages (UTF-8 bytes of the Chinese literals).\<close>

definition msg_not_found :: string where
  "msg_not_found = [CHR 0xE6, CHR 0x9C, CHR 0xAA, CHR 0xE6, CHR 0x89, CHR 0xBE, CHR 0xE5,
     CHR 0x88, CHR 0xB0, CHR 0xE6, CHR 0x9D, CHR 0xA1, CHR 0xE7, CHR 0xA0, CHR 0x81, CHR 0xE5,
     CHR 0xAF, CHR 0xB9, CHR 0xE5, CHR 0xBA, CHR 0x94, CHR 0xE5, CHR 0x95, CHR 0x86, CHR 0xE5,
     CHR 0x93, CHR 0x81]"

definition msg_updated :: string where
  "msg_updated = [CHR 0xE6, CHR 0x9B, CHR 0xB4, CHR 0xE6, CHR 0x96, CHR 0xB0, CHR 0xE6,
     CHR 0x88, CHR 0x90, CHR 0xE5, CHR 0x8A, CHR 0x9F]"

subsection \<open>Catalog store and ledger store\<close>

definition product_of_row :: "sheet_row \<Rightarrow> product" where
  "product_of_row r =
     \<lparr>id_field = c_id r, barcode = c_barcode r, name = read_text (c_name r),
      category = read_text (c_category r), purchase_price = c_purchase_price r,
      bulk_price = c_bulk_price r, bulk_quantity = c_bulk_quantity r, price = c_price r,
      profit_margin = read_text (c_profit_margin r), stock = c_stock r,
      location = read_text (c_location r), supplier = read_text (c_supplier r),
      image_path = read_text (c_image_path r), notes_field = read_text (c_notes r),
      expiry_date = None\<rparr>"

definition row_of_product :: "product \<Rightarrow> sheet_row" where
  "row_of_product p =
     \<lparr>c_category = write_text (category p), c_id = id_field p, c_name = write_text (name p),
      c_barcode = barcode p, c_bulk_price = bulk_price p, c_bulk_quantity = bulk_quantity p,
      c_purchase_price = purchase_price p, c_price = price p,
      c_profit_margin = write_text (profit_margin p), c_stock = stock p,
      c_location = write_text (location p), c_supplier = write_text (supplier p),
      c_image_path = write_text (image_path p), c_notes = write_text (notes_field p)\<rparr>"

text \<open>
  \<open>load_products\<close> on a readable workbook whose products sheet has the localized headers:
  the columns are renamed, the missing \<open>expiry_date\<close> column is added as None, and the
  typed cells are what the coercions give.
\<close>

definition load_products :: "store \<Rightarrow> product list" where
  "load_products st = map product_of_row (products st)"

text \<open>
  \<open>save_products\<close>: rename to the localized headers, keep the fourteen columns, read the
  other two sheets back and write all three.
\<close>

definition save_products :: "product list \<Rightarrow> store \<Rightarrow> store" where
  "save_products df st = st\<lparr>products := map row_of_product df\<rparr>"

definition append_transaction :: "txn \<Rightarrow> store \<Rightarrow> store" where
  "append_transaction tx_record st =
     (let tx = transactions st @ [tx_record];
          prod = load_products st
      in st\<lparr>products := map row_of_product prod, transactions := tx\<rparr>)"

definition append_stock_log :: "stock_log_entry \<Rightarrow> store \<Rightarrow> store" where
  "append_stock_log log_record st =
     (let log = stock_log st @ [log_record];
          prod = load_products st
      in st\<lparr>products := map row_of_product prod, stock_log := log\<rparr>)"

subsection \<open>Reading a products sheet with either label set\<close>

text \<open>
  \<open>load_products\<close> above is the reading of a sheet that \<open>save_products\<close> wrote. The
  function itself accepts more: a sheet whose headers are the localized labels of
  \<open>COLUMN_MAP\<close>, the internal names, or a mixture, with columns missing and with any
  text in the numeric cells. \<open>load_products_sheet\<close> is that function on the outcome of
  \<open>pd.read_excel(..., dtype=str)\<close>: an exception, or the header and the rows of cells,
  each cell a string or missing.
\<close>

datatype field =
    Category | Id | Name | Barcode | BulkPrice | BulkQuantity | PurchasePrice | Price
  | ProfitMargin | Stock | Location | Supplier | ImagePath | Notes

text \<open>
  A column label: the localized label of a field, its internal name, the internal name
  \<open>expiry_date\<close> (which has no localized label), or any other text.
\<close>

datatype label = Localized field | Internal field | ExpiryDate | Other string

type_synonym raw_frame = "label list \<times> string option list list"

definition COLUMN_MAP :: "label \<Rightarrow> label option" where
  "COLUMN_MAP c = (case c of Localized f \<Rightarrow> Some (Internal f) | _ \<Rightarrow> None)"

text \<open>\<open>df.rename(columns=COLUMN_MAP)\<close>\<close>

definition rename_columns :: "label list \<Rightarrow> label list" where
  "rename_columns cols = map (\<lambda>c. case COLUMN_MAP c of Some c' \<Rightarrow> c' | None \<Rightarrow> c) cols"

text \<open>
  The cell of a row in the column \<open>col\<close>; a column that is not there was added by
  \<open>df[col] = None\<close>, so its cell is missing.
\<close>

definition column_value :: "label list \<Rightarrow> string option list \<Rightarrow> label \<Rightarrow> string option" where
  "column_value cols row col = (case map_of (zip cols row) col of None \<Rightarrow> None | Some v \<Rightarrow> v)"

text \<open>The column \<open>df[col]\<close>, top to bottom.\<close>

definition column_cells ::
  "label list \<Rightarrow> string option list list \<Rightarrow> label \<Rightarrow> string option list" where
  "column_cells cols rows col = map (\<lambda>row. column_value cols row col) rows"

text \<open>\<open>.fillna("").astype(str)\<close>\<close>

definition fillna_str :: "string option \<Rightarrow> string" where
  "fillna_str v = (case v of None \<Rightarrow> [] | Some s \<Rightarrow> s)"

text \<open>
  \<open>pd.to_numeric(..., errors="coerce")\<close> on a cell: a missing cell is NaN, a string is
  parsed by \<open>to_numeric\<close>, the library's parser, which gives NaN for text it cannot
  parse and an infinity for text such as \<open>inf\<close>.
\<close>

definition to_numeric_cell :: "(string \<Rightarrow> pyfloat) \<Rightarrow> string option \<Rightarrow> pyfloat" where
  "to_numeric_cell to_numeric v = (case v of None \<Rightarrow> NaN | Some s \<Rightarrow> to_numeric s)"

text \<open>\<open>.fillna(0)\<close> on a value of a float column.\<close>

definition fillna_zero :: "pyfloat \<Rightarrow> pyfloat" where
  "fillna_zero v = (case v of NaN \<Rightarrow> Fin 0 | _ \<Rightarrow> v)"

text \<open>Rounding towards zero, and the range of a 64-bit signed integer.\<close>

definition trunc_zero :: "real \<Rightarrow> int" where
  "trunc_zero r = (if 0 \<le> r then \<lfloor>r\<rfloor> else \<lceil>r\<rceil>)"

definition int64_range :: "int \<Rightarrow> bool" where
  "int64_range n = (- (2 ^ 63) \<le> n \<and> n < 2 ^ 63)"

text \<open>
  \<open>.astype(int)\<close> on a value of a float column. pandas raises (IntCastingNaNError, a
  ValueError) for an infinity or NaN. A finite value is converted by numpy to int64 (its
  integer type wherever a C long has 64 bits, and everywhere from numpy 2):
  rounded towards zero when that fits; when it does not fit numpy does not raise, and
  the result is what the platform's conversion gives, the parameter \<open>overflow\<close>.
\<close>

definition astype_int :: "(real \<Rightarrow> int) \<Rightarrow> pyfloat \<Rightarrow> py_error + int" where
  "astype_int overflow v =
     (case v of
        Fin r \<Rightarrow> Inr (if int64_range (trunc_zero r) then trunc_zero r else overflow r)
      | _ \<Rightarrow> Inl ValueError)"

text \<open>\<open>Series.astype(int)\<close>: it raises when the conversion of any value does.\<close>

fun series_astype_int :: "(real \<Rightarrow> int) \<Rightarrow> pyfloat list \<Rightarrow> py_error + int list" where
  "series_astype_int overflow [] = Inr []"
| "series_astype_int overflow (v # vs) =
     (case astype_int overflow v of
        Inl e \<Rightarrow> Inl e
      | Inr n \<Rightarrow>
          (case series_astype_int overflow vs of
             Inl e \<Rightarrow> Inl e
           | Inr ns \<Rightarrow> Inr (n # ns)))"

text \<open>
  Lines 126 to 129, and 136 to 139 for \<open>bulk_quantity\<close>:
  \<open>try: df[c] = pd.to_numeric(df[c], errors="coerce").fillna(0).astype(int)\<close>,
  \<open>except Exception: df[c] = 0\<close>. When the conversion raises, every cell of the column
  becomes 0.
\<close>

definition to_int_column ::
  "(string \<Rightarrow> pyfloat) \<Rightarrow> (real \<Rightarrow> int) \<Rightarrow> string option list \<Rightarrow> int list" where
  "to_int_column to_numeric overflow cells =
     (case series_astype_int overflow
             (map (\<lambda>v. fillna_zero (to_numeric_cell to_numeric v)) cells) of
        Inl e \<Rightarrow> replicate (length cells) 0
      | Inr ns \<Rightarrow> ns)"

text \<open>
  A row of the frame that is returned: the text cells as they are, id and barcode with
  the empty string for a missing cell, the prices parsed, and the row's cells of the
  two integer columns.
\<close>

definition normalize_row ::
  "(string \<Rightarrow> pyfloat) \<Rightarrow> label list \<Rightarrow> string option list \<Rightarrow> int \<Rightarrow> int \<Rightarrow> product" where
  "normalize_row to_numeric cols row stock_cell quantity_cell =
     \<lparr>id_field = fillna_str (column_value cols row (Internal Id)),
      barcode = fillna_str (column_value cols row (Internal Barcode)),
      name = column_value cols row (Internal Name),
      category = column_value cols row (Internal Category),
      purchase_price = to_numeric_cell to_numeric (column_value cols row (Internal PurchasePrice)),
      bulk_price = to_numeric_cell to_numeric (column_value cols row (Internal BulkPrice)),
      bulk_quantity = quantity_cell,
      price = to_numeric_cell to_numeric (column_value cols row (Internal Price)),
      profit_margin = column_value cols row (Internal ProfitMargin),
      stock = stock_cell,
      location = column_value cols row (Internal Location),
      supplier = column_value cols row (Internal Supplier),
      image_path = column_value cols row (Internal ImagePath),
      notes_field = column_value cols row (Internal Notes),
      expiry_date = column_value cols row ExpiryDate\<rparr>"

text \<open>Lines 114 to 140 on a frame whose labels \<open>cols\<close> are pairwise different.\<close>

definition normalize_frame ::
  "(string \<Rightarrow> pyfloat) \<Rightarrow> (real \<Rightarrow> int) \<Rightarrow> label list \<Rightarrow> string option list list
     \<Rightarrow> product list" where
  "normalize_frame to_numeric overflow cols rows =
     (let stocks = to_int_column to_numeric overflow (column_cells cols rows (Internal Stock));
          quantities =
            to_int_column to_numeric overflow (column_cells cols rows (Internal BulkQuantity))
      in map (\<lambda>(row, s, q). normalize_row to_numeric cols row s q)
           (zip rows (zip stocks quantities)))"

text \<open>
  What a call of \<open>load_products()\<close> does: it raises, or it returns a catalog, or it
  returns with \<open>DuplicateColumns\<close>. The last is the case of a sheet that has a field
  under both its localized and its internal label: after \<open>rename\<close> the frame has two
  columns of one name, \<open>df[name]\<close> is then a frame and not a column, and what lines
  120 to 139 make of it differs between versions of pandas. An exception there is
  caught at line 141, so the call returns in every version; what it returns is either
  the empty frame or a frame with two columns of one name, and is not described here.
\<close>

datatype load_result = Raises py_error | Loaded "product list" | DuplicateColumns

text \<open>
  \<open>load_products()\<close>. \<open>ensured\<close> is the outcome of \<open>ensure_inventory_file()\<close>, which is
  called before the \<open>try\<close> block and raises when the workbook is missing and cannot be
  written; \<open>read\<close> is the outcome of \<open>detect_product_sheet\<close> and \<open>pd.read_excel\<close>
  inside it, whose exception is caught at line 141 and gives the empty frame.
\<close>

definition load_products_sheet ::
  "(string \<Rightarrow> pyfloat) \<Rightarrow> (real \<Rightarrow> int) \<Rightarrow> py_error + unit \<Rightarrow> py_error + raw_frame
     \<Rightarrow> load_result" where
  "load_products_sheet to_numeric overflow ensured read =
     (case ensured of
        Inl e \<Rightarrow> Raises e
      | Inr _ \<Rightarrow>
          (case read of
             Inl e \<Rightarrow> Loaded []
           | Inr (raw_cols, rows) \<Rightarrow>
               (let cols = (if \<exists>c \<in> set raw_cols. COLUMN_MAP c \<noteq> None
                            then rename_columns raw_cols else raw_cols)
                in if distinct cols
                   then Loaded (normalize_frame to_numeric overflow cols rows)
                   else DuplicateColumns)))"

subsection \<open>Stock mutator\<close>

text \<open>
  \<open>df.at[i]\<close> with the single key \<open>i\<close>. \<open>DataFrame.at\<close> is pandas' scalar accessor and
  takes a row label and a column label; with one key it calls
  \<open>DataFrame._get_value(i)\<close> without the column argument, and Python raises TypeError.
  Line 253 of the source, \<open>df.at[i].get("name", "")\<close>, therefore raises for every data
  frame and every \<open>i\<close>.
\<close>

definition at_single_key :: "product list \<Rightarrow> nat \<Rightarrow> py_error + product" where
  "at_single_key df i = Inl TypeError"

text \<open>
  \<open>update_stock_by_barcode(barcode, delta, operator, typ, note)\<close>. \<open>uid\<close> and \<open>now\<close>
  are the values of \<open>uuid.uuid4()\<close> and \<open>datetime.now()\<close>. The result is what the call
  returns or the exception it raises, with the workbook as the call leaves it.
  The dictionary \<open>log\<close> (\<open>stock_change_record\<close>, lines 249 to 260) is built after
  \<open>save_products(df)\<close>, entry by entry, with \<open>after = before + int(delta)\<close>.
\<close>

definition stock_change_record ::
  "string \<Rightarrow> string \<Rightarrow> string \<Rightarrow> string option \<Rightarrow> int \<Rightarrow> int \<Rightarrow> int \<Rightarrow> string \<Rightarrow> string
     \<Rightarrow> string \<Rightarrow> stock_log_entry" where
  "stock_change_record uid now bc nm delta before after typ operator note =
     \<lparr>log_id = uid, log_datetime = now, log_barcode = bc, log_name = nm, change = delta,
      before_stock = before, after_stock = after, log_type = typ, log_operator = operator,
      log_note = note\<rparr>"

definition update_stock_by_barcode ::
  "string \<Rightarrow> string \<Rightarrow> string \<Rightarrow> int \<Rightarrow> string \<Rightarrow> string \<Rightarrow> string \<Rightarrow> store
     \<Rightarrow> (py_error + bool \<times> string) \<times> store" where
  "update_stock_by_barcode uid now bc delta operator typ note st =
     (let df = load_products st;
          idx = index_where (\<lambda>p. barcode p = bc) df
      in case idx of
           [] \<Rightarrow> (Inr (False, msg_not_found), st)
         | i # _ \<Rightarrow>
             (let before = stock (df ! i);
                  after = before + delta;
                  df' = df[i := (df ! i)\<lparr>stock := after\<rparr>];
                  st' = save_products df' st
              in case at_single_key df' i of
                   Inl e \<Rightarrow> (Inl e, st')
                 | Inr r \<Rightarrow>
                     (let log = stock_change_record uid now bc (name r) delta before after
                                  typ operator note
                      in (Inr (True, msg_updated), append_stock_log log st'))))"

subsection \<open>The seed workbook\<close>

definition name_water :: string where
  "name_water = [CHR 0xE7, CHR 0x9F, CHR 0xBF, CHR 0xE6, CHR 0xB3, CHR 0x89, CHR 0xE6,
     CHR 0xB0, CHR 0xB4, CHR 0x20, CHR 0x35, CHR 0x30, CHR 0x30, CHR 0x6D, CHR 0x6C]"

definition cat_drinks :: string where
  "cat_drinks = [CHR 0xE9, CHR 0xA5, CHR 0xAE, CHR 0xE6, CHR 0x96, CHR 0x99]"

definition loc_a1 :: string where
  "loc_a1 = [CHR 0xE8, CHR 0xB4, CHR 0xA7, CHR 0xE6, CHR 0x9E, CHR 0xB6, CHR 0x20,
     CHR 0x41, CHR 0x31]"

definition name_noodles :: string where
  "name_noodles = [CHR 0xE6, CHR 0x96, CHR 0xB9, CHR 0xE4, CHR 0xBE, CHR 0xBF, CHR 0xE9,
     CHR 0x9D, CHR 0xA2]"

definition cat_food :: string where
  "cat_food = [CHR 0xE9, CHR 0xA3, CHR 0x9F, CHR 0xE5, CHR 0x93, CHR 0x81]"

definition loc_b2 :: string where
  "loc_b2 = [CHR 0xE8, CHR 0xB4, CHR 0xA7, CHR 0xE6, CHR 0x9E, CHR 0xB6, CHR 0x20,
     CHR 0x42, CHR 0x32]"

text \<open>
  The workbook \<open>ensure_inventory_file\<close> creates when there is none: two sample products
  (their ids are two \<open>uuid4\<close> draws) and empty transaction and stock-log sheets.
\<close>

definition ensure_inventory_file :: "string \<Rightarrow> string \<Rightarrow> store" where
  "ensure_inventory_file uid1 uid2 =
     \<lparr>products =
        [\<lparr>c_category = cat_drinks, c_id = uid1, c_name = name_water,
          c_barcode = ''6901234567890'', c_bulk_price = Fin 20, c_bulk_quantity = 24,
          c_purchase_price = Fin 1, c_price = Fin 2.5, c_profit_margin = [],
          c_stock = 50, c_location = loc_a1, c_supplier = [], c_image_path = [],
          c_notes = []\<rparr>,
         \<lparr>c_category = cat_food, c_id = uid2, c_name = name_noodles,
          c_barcode = ''6909876543210'', c_bulk_price = Fin 30, c_bulk_quantity = 20,
          c_purchase_price = Fin 1.5, c_price = Fin 4, c_profit_margin = [],
          c_stock = 30, c_location = loc_b2, c_supplier = [], c_image_path = [],
          c_notes = []\<rparr>],
      transactions = [], stock_log = []\<rparr>"

subsection \<open>Lookup engine\<close>

text \<open>\<open>Series.astype(str)\<close> on a text column: the missing value becomes the string nan.\<close>

definition astype_str :: "string option \<Rightarrow> string" where
  "astype_str v = (case v of None \<Rightarrow> ''nan'' | Some s \<Rightarrow> s)"

text \<open>
  \<open>DataFrame.head(n)\<close>: the first \<open>n\<close> rows; for a negative \<open>n\<close>, all rows but the
  last \<open>-n\<close>.
\<close>

definition head_df :: "int \<Rightarrow> 'a list \<Rightarrow> 'a list" where
  "head_df n xs = (if 0 \<le> n then take (nat n) xs else take (length xs - nat (- n)) xs)"

text \<open>
  \<open>search_by_name(query, products_df, limit)\<close>. Two library calls are parameters:
  \<^item> \<open>contains q\<close> is \<open>Series.str.contains(q, case=False, na=False)\<close>, a
    case-insensitive regular-expression search: either the pattern does not compile
    and the call raises, or it gives the predicate on names;
  \<^item> \<open>fuzzy\<close> is \<open>None\<close> when \<open>RAPIDFUZZ_AVAILABLE\<close> is false, and otherwise the
    function taking \<open>query\<close>, \<open>choices\<close> and \<open>limit\<close> to the list
    \<open>[r[0] for r in process.extract(query, choices, scorer=fuzz.WRatio, limit=limit)]\<close>.
\<close>

definition search_by_name ::
  "(string \<Rightarrow> string list \<Rightarrow> int \<Rightarrow> string list) option
     \<Rightarrow> (string \<Rightarrow> py_error + (string \<Rightarrow> bool))
     \<Rightarrow> string \<Rightarrow> product list \<Rightarrow> int \<Rightarrow> py_error + product list" where
  "search_by_name fuzzy contains query0 products_df limit =
     (let query = strip query0
      in if length query = 0 then Inr []
         else case contains query of
                Inl e \<Rightarrow> Inl e
              | Inr matches \<Rightarrow>
                  (let subs = filter (\<lambda>p. matches (astype_str (name p))) products_df
                   in case fuzzy of
                        None \<Rightarrow> Inr (head_df limit subs)
                      | Some extract \<Rightarrow>
                          if length subs \<ge> 1 then Inr (head_df limit subs)
                          else (let choices = map (\<lambda>p. astype_str (name p)) products_df;
                                    names = extract query choices limit
                                in Inr (filter (\<lambda>p. case name p of
                                                        None \<Rightarrow> False
                                                      | Some n \<Rightarrow> n \<in> set names)
                                          products_df))))"

definition search_by_barcode :: "string \<Rightarrow> product list \<Rightarrow> product list" where
  "search_by_barcode barcode0 products_df =
     (let bc = strip barcode0
      in if bc = [] then [] else filter (\<lambda>p. barcode p = bc) products_df)"

subsection \<open>Checkout\<close>

definition op_cashier :: string where
  "op_cashier = [CHR 0xE6, CHR 0x94, CHR 0xB6, CHR 0xE9, CHR 0x93, CHR 0xB6]"

definition note_pos :: string where
  "note_pos = [CHR 0x50, CHR 0x4F, CHR 0x53, CHR 0x20, CHR 0xE7, CHR 0xBB, CHR 0x93,
     CHR 0xE8, CHR 0xB4, CHR 0xA6]"

text \<open>The failure message of a cart line: \<open>f'{it["name"]}: {msg}'\<close>.\<close>

definition failure_message :: "item \<Rightarrow> string \<Rightarrow> string" where
  "failure_message it msg = astype_str (it_name it) @ '': '' @ msg"

datatype checkout_result =
    CartEmpty
  | Completed txn
  | Failed "string list"
  | Raised py_error

text \<open>
  The loop of the checkout button over \<open>st.session_state.cart\<close>, from cart line \<open>k\<close> on.
  \<open>uuids k\<close> and \<open>clock k\<close> are the \<open>uuid4\<close> draw and the clock reading of the
  \<open>k\<close>-th call. The loop body has no \<open>break\<close>: after a failed line it goes on to the
  next one. An exception leaves the loop.
\<close>

fun checkout_loop ::
  "(nat \<Rightarrow> string) \<Rightarrow> (nat \<Rightarrow> string) \<Rightarrow> nat \<Rightarrow> item list \<Rightarrow> bool \<Rightarrow> string list \<Rightarrow> store
     \<Rightarrow> (py_error + bool \<times> string list) \<times> store" where
  "checkout_loop uuids clock k [] success messages st = (Inr (success, messages), st)"
| "checkout_loop uuids clock k (it # its) success messages st =
     (case update_stock_by_barcode (uuids k) (clock k) (it_barcode it) (- it_qty it)
             op_cashier ''sale'' note_pos st of
        (Inl e, st') \<Rightarrow> (Inl e, st')
      | (Inr (ok, msg), st') \<Rightarrow>
          if \<not> ok
          then checkout_loop uuids clock (Suc k) its False
                 (messages @ [failure_message it msg]) st'
          else checkout_loop uuids clock (Suc k) its success messages st')"

text \<open>
  The checkout button (lines 317 to 347). The result is the outcome and the cart and the
  workbook it leaves. \<open>paid\<close> is the amount entered.
\<close>

definition checkout ::
  "(nat \<Rightarrow> string) \<Rightarrow> (nat \<Rightarrow> string) \<Rightarrow> real \<Rightarrow> item list \<Rightarrow> store
     \<Rightarrow> checkout_result \<times> item list \<times> store" where
  "checkout uuids clock paid cart st =
     (if \<not> length cart > 0 then (CartEmpty, cart, st)
      else
        (let total = sum_list (map it_subtotal cart)
         in case checkout_loop uuids clock 0 cart True [] st of
              (Inl e, st') \<Rightarrow> (Raised e, cart, st')
            | (Inr (success, messages), st') \<Rightarrow>
                if success
                then (let txn = \<lparr>txn_id = uuids (length cart),
                                   txn_datetime = clock (length cart),
                                   txn_items = cart, txn_total = total, txn_paid = paid,
                                   txn_change = paid - total, txn_operator = op_cashier,
                                   txn_note = []\<rparr>
                      in (Completed txn, [], append_transaction txn st'))
                else (Failed messages, cart, st')))"

subsection \<open>Catalog editor\<close>

definition note_initial :: string where
  "note_initial = [CHR 0xE6, CHR 0x96, CHR 0xB0, CHR 0xE5, CHR 0xBB, CHR 0xBA, CHR 0xE5,
     CHR 0x95, CHR 0x86, CHR 0xE5, CHR 0x93, CHR 0x81, CHR 0xE5, CHR 0x88, CHR 0x9D, CHR 0xE5,
     CHR 0xA7, CHR 0x8B, CHR 0xE5, CHR 0xBA, CHR 0x93, CHR 0xE5, CHR 0xAD, CHR 0x98]"

definition op_stock_edit :: string where
  "op_stock_edit = [CHR 0xE5, CHR 0xBA, CHR 0x93, CHR 0xE5, CHR 0xAD, CHR 0x98, CHR 0xE7,
     CHR 0xBC, CHR 0x96, CHR 0xE8, CHR 0xBE, CHR 0x91]"

definition note_manual :: string where
  "note_manual = [CHR 0xE4, CHR 0xBA, CHR 0xBA, CHR 0xE5, CHR 0xB7, CHR 0xA5, CHR 0xE4,
     CHR 0xBF, CHR 0xAE, CHR 0xE6, CHR 0x94, CHR 0xB9, CHR 0xE5, CHR 0xBA, CHR 0x93, CHR 0xE5,
     CHR 0xAD, CHR 0x98]"

text \<open>The fields of the add form.\<close>

record add_form =
  f_name :: string
  f_barcode :: string
  f_category :: string
  f_price :: real
  f_purchase_price :: real
  f_bulk_price :: real
  f_bulk_quantity :: int
  f_location :: string
  f_stock :: int
  f_notes :: string

definition new_product :: "string \<Rightarrow> add_form \<Rightarrow> product" where
  "new_product uid f =
     \<lparr>id_field = uid, barcode = strip (f_barcode f), name = Some (strip (f_name f)),
      category = Some (strip (f_category f)), purchase_price = Fin (f_purchase_price f),
      bulk_price = Fin (f_bulk_price f), bulk_quantity = f_bulk_quantity f,
      price = Fin (f_price f), profit_margin = None, stock = f_stock f,
      location = Some (strip (f_location f)), supplier = Some [], image_path = Some [],
      notes_field = Some (strip (f_notes f)), expiry_date = Some []\<rparr>"

text \<open>
  The add form's submit block (lines 452 to 487). \<open>uid\<close> is the draw for the product id,
  \<open>uid_log\<close> and \<open>now\<close> the draw and the clock reading for the log entry.
\<close>

definition add_product :: "string \<Rightarrow> string \<Rightarrow> string \<Rightarrow> add_form \<Rightarrow> store \<Rightarrow> store" where
  "add_product uid uid_log now f st =
     (let df = load_products st;
          new = new_product uid f;
          df' = df @ [new];
          st' = save_products df' st
      in if f_stock f > 0 \<and> barcode new \<noteq> []
         then append_stock_log
                \<lparr>log_id = uid_log, log_datetime = now, log_barcode = barcode new,
                 log_name = name new, change = f_stock f, before_stock = 0,
                 after_stock = f_stock f, log_type = ''in_initial'',
                 log_operator = ''system'', log_note = note_initial\<rparr> st'
         else st')"

text \<open>The fields of the edit form.\<close>

record edit_form =
  e_name :: string
  e_category :: string
  e_price :: real
  e_purchase_price :: real
  e_bulk_price :: real
  e_bulk_quantity :: int
  e_location :: string
  e_stock :: int
  e_notes :: string

text \<open>
  The edit form's save block (lines 511 to 543); the boolean is whether the product was
  located.
\<close>

definition update_product ::
  "string \<Rightarrow> string \<Rightarrow> string \<Rightarrow> edit_form \<Rightarrow> store \<Rightarrow> bool \<times> store" where
  "update_product uid_log now e_barcode f st =
     (let df_all = load_products st;
          idx = index_where (\<lambda>p. barcode p = e_barcode) df_all
      in case idx of
           [] \<Rightarrow> (False, st)
         | i # _ \<Rightarrow>
             (let before = stock (df_all ! i);
                  df' = df_all[i := (df_all ! i)
                          \<lparr>name := Some (e_name f), category := Some (e_category f),
                           price := Fin (e_price f),
                           purchase_price := Fin (e_purchase_price f),
                           bulk_price := Fin (e_bulk_price f),
                           bulk_quantity := e_bulk_quantity f,
                           location := Some (e_location f), stock := e_stock f,
                           notes_field := Some (e_notes f)\<rparr>];
                  st' = save_products df' st
              in if before \<noteq> e_stock f
                 then (True, append_stock_log
                         \<lparr>log_id = uid_log, log_datetime = now, log_barcode = e_barcode,
                          log_name = Some (e_name f), change = e_stock f - before,
                          before_stock = before, after_stock = e_stock f,
                          log_type = ''adjust_manual'', log_operator = op_stock_edit,
                          log_note = note_manual\<rparr> st')
                 else (True, st')))"

text \<open>The edit form's delete block (lines 544 to 548).\<close>

definition delete_product :: "string \<Rightarrow> store \<Rightarrow> store" where
  "delete_product e_barcode st =
     (let df_all = load_products st;
          df' = filter (\<lambda>p. barcode p \<noteq> e_barcode) df_all
      in save_products df' st)"

subsection \<open>Sample inputs\<close>

text \<open>Draws and clock readings for the examples below.\<close>

definition demo_uuids :: "nat \<Rightarrow> string" where
  "demo_uuids k = replicate (Suc k) CHR ''u''"

definition demo_clock :: "nat \<Rightarrow> string" where
  "demo_clock k = ''2024-01-01 09:00:00''"

text \<open>The seed workbook, with ids \<open>a\<close> and \<open>b\<close>.\<close>

definition seed_store :: store where
  "seed_store = ensure_inventory_file ''a'' ''b''"

text \<open>A cart line for a product row, as the POS page builds it from the row.\<close>

definition cart_line :: "string \<Rightarrow> string \<Rightarrow> real \<Rightarrow> int \<Rightarrow> item" where
  "cart_line bc nm p q =
     \<lparr>it_id = [], it_barcode = bc, it_name = Some nm, it_price = p, it_qty = q,
      it_subtotal = p * real_of_int q\<rparr>"

text \<open>Every stock-log entry records \<open>after_stock = before_stock + change\<close>.\<close>

definition log_entry_ok :: "stock_log_entry \<Rightarrow> bool" where
  "log_entry_ok e = (after_stock e = before_stock e + change e)"

text \<open>A catalog in which both rows carry the same barcode.\<close>

definition dup_store :: store where
  "dup_store =
     seed_store\<lparr>products :=
       [products seed_store ! 0,
        (products seed_store ! 1)\<lparr>c_barcode := ''6901234567890''\<rparr>]\<rparr>"

text \<open>A cart whose first line has a barcode that is in no catalog row.\<close>

definition ghost_cart :: "item list" where
  "ghost_cart =
     [cart_line ''0000'' ''ghost'' 1 1, cart_line ''6901234567890'' name_water 2.5 2]"

text \<open>The seed workbook after a product with initial stock 10 was added.\<close>

definition grown_store :: store where
  "grown_store =
     add_product ''c'' ''l'' ''2024-01-01 08:00:00''
       \<lparr>f_name = ''tea'', f_barcode = ''777'', f_category = [], f_price = 3,
        f_purchase_price = 1, f_bulk_price = 0, f_bulk_quantity = 0, f_location = [],
        f_stock = 10, f_notes = []\<rparr> seed_store"

text \<open>A cart none of whose barcodes is in the seed catalog.\<close>

definition ghost_only_cart :: "item list" where
  "ghost_only_cart = [cart_line ''0000'' ''ghost'' 1 1, cart_line ''0001'' ''phantom'' 2 3]"

text \<open>
  Sample library behaviour for the name search. \<open>plain_contains q\<close> is the search for a
  query without regular-expression metacharacters, letter case aside: the names that
  have \<open>q\<close> as a substring. \<open>first_choices\<close> is \<open>process.extract\<close> on choices that all
  score alike: the first \<open>limit\<close> choices.
\<close>

fun is_substring :: "string \<Rightarrow> string \<Rightarrow> bool" where
  "is_substring q [] = (q = [])"
| "is_substring q (c # cs) = (take (length q) (c # cs) = q \<or> is_substring q cs)"

definition plain_contains :: "string \<Rightarrow> py_error + (string \<Rightarrow> bool)" where
  "plain_contains q = Inr (is_substring q)"

definition first_choices :: "string \<Rightarrow> string list \<Rightarrow> int \<Rightarrow> string list" where
  "first_choices q choices limit = take (nat limit) choices"

text \<open>The seed catalog with both products renamed to cola.\<close>

definition cola_store :: store where
  "cola_store =
     seed_store\<lparr>products :=
       [(products seed_store ! 0)\<lparr>c_name := ''cola''\<rparr>,
        (products seed_store ! 1)\<lparr>c_name := ''cola''\<rparr>]\<rparr>"

text \<open>
  A sample parser for the numeric cells: a non-empty string of decimal digits is its
  number, \<open>inf\<close> is the positive infinity, anything else is not a number. The sample
  conversion of a float outside the int64 range gives the least int64.
\<close>

definition digits_to_numeric :: "string \<Rightarrow> pyfloat" where
  "digits_to_numeric s =
     (if s \<noteq> [] \<and> list_all (\<lambda>c. 48 \<le> (of_char c :: nat) \<and> (of_char c :: nat) \<le> 57) s
      then Fin (real (foldl (\<lambda>a c. 10 * a + ((of_char c :: nat) - 48)) (0::nat) s))
      else if s = ''inf'' then PosInf else NaN)"

definition least_int64 :: "real \<Rightarrow> int" where
  "least_int64 r = - (2 ^ 63)"

text \<open>
  A sheet with localized headers and the internal name of one more field, no category
  column, and a second row whose barcode cell is empty, whose stock is \<open>inf\<close> and whose
  price and quantity are not numbers.
\<close>

definition sample_sheet :: raw_frame where
  "sample_sheet =
     ([Localized Name, Localized Barcode, Localized Stock, Localized Price,
       Internal BulkQuantity],
      [[Some ''tea'', Some ''777'', Some ''12'', Some ''3'', Some ''7''],
       [Some ''mug'', None, Some ''inf'', Some ''n/a'', Some ''many'']])"

section \<open>Properties\<close>

lemmas strip_eval =
  strip_def lstrip_def rstrip_def is_space_def is_space2_def is_space3_def space_chars_def

subsection \<open>Reading back what was written\<close>

lemma write_read_text [simp]: "write_text (read_text s) = s"
  by (simp add: write_text_def read_text_def)

lemma row_of_product_of_row [simp]: "row_of_product (product_of_row r) = r"
  by (simp add: row_of_product_def product_of_row_def)

lemma map_row_of_load [simp]: "map row_of_product (load_products st) = products st"
  by (simp add: load_products_def comp_def)

lemma index_where_Nil_iff: "index_where P xs = [] \<longleftrightarrow> (\<forall>x \<in> set xs. \<not> P x)"
proof
  assume "index_where P xs = []"
  then have "\<forall>i < length xs. \<not> P (xs ! i)"
    by (simp add: index_where_def filter_empty_conv)
  then show "\<forall>x \<in> set xs. \<not> P x"
    by (auto simp: in_set_conv_nth)
next
  assume "\<forall>x \<in> set xs. \<not> P x"
  then show "index_where P xs = []"
    by (simp add: index_where_def filter_empty_conv)
qed

lemma barcode_product_of_row [simp]: "barcode (product_of_row r) = c_barcode r"
  by (simp add: product_of_row_def)

lemma update_stock_absent:
  assumes "bc \<notin> c_barcode ` set (products st)"
  shows "update_stock_by_barcode uid now bc delta operator typ note st
           = (Inr (False, msg_not_found), st)"
proof -
  have "index_where (\<lambda>p. barcode p = bc) (load_products st) = []"
    using assms by (auto simp: index_where_Nil_iff load_products_def)
  then show ?thesis
    by (simp add: update_stock_by_barcode_def)
qed

subsection \<open>C5: an unknown barcode changes nothing\<close>

text \<open>
  C5. When no catalog entry has exactly the given barcode, \<open>update_stock_by_barcode\<close>
  returns the failure \<open>(False, "not found")\<close> and leaves the workbook as it was: the
  products sheet is not written, no stock-log entry and no transaction is appended.
\<close>

theorem update_stock_not_found:
  assumes "bc \<notin> c_barcode ` set (products st)"
  shows "update_stock_by_barcode uid now bc delta operator typ note st
           = (Inr (False, msg_not_found), st)"
  using assms by (rule update_stock_absent)

theorem update_stock_not_found_witness:
  "''0000'' \<notin> c_barcode ` set (products seed_store)
   \<and> update_stock_by_barcode ''u'' ''t'' ''0000'' (- 1) ''op'' ''sale'' ''n'' seed_store
       = (Inr (False, msg_not_found), seed_store)"
proof -
  have h: "''0000'' \<notin> c_barcode ` set (products seed_store)"
    by (simp add: seed_store_def ensure_inventory_file_def)
  show ?thesis
    using h update_stock_not_found [OF h] by simp
qed

subsection \<open>What a call with a known barcode does\<close>

lemma index_where_Cons:
  assumes "index_where P xs = i # rest"
  shows "i < length xs" and "P (xs ! i)" and "\<forall>j < i. \<not> P (xs ! j)"
proof -
  from assms obtain us vs where
    split: "[0..<length xs] = us @ i # vs" and
    before: "\<forall>u \<in> set us. \<not> P (xs ! u)" and
    here: "P (xs ! i)"
    unfolding index_where_def filter_eq_Cons_iff by blast
  have "i \<in> set [0..<length xs]"
    by (simp only: split) simp
  then show lt: "i < length xs" by simp
  show "P (xs ! i)" by (rule here)
  have len: "length us < length xs"
    using arg_cong [OF split, of length] by simp
  have "[0..<length xs] ! length us = i"
    by (simp only: split nth_append_length)
  with len have i_eq: "i = length us" by simp
  show "\<forall>j < i. \<not> P (xs ! j)"
  proof (intro allI impI)
    fix j assume "j < i"
    with i_eq len have "j < length us" "j < length xs" by simp_all
    then have "us ! j = [0..<length xs] ! j"
      by (simp only: split nth_append) simp
    with \<open>j < length xs\<close> have "us ! j = j" by simp
    with \<open>j < length us\<close> have "j \<in> set us"
      by (metis nth_mem)
    with before show "\<not> P (xs ! j)" by blast
  qed
qed

lemma row_of_product_stock:
  "row_of_product (p\<lparr>stock := s\<rparr>) = (row_of_product p)\<lparr>c_stock := s\<rparr>"
  by (simp add: row_of_product_def)

lemma stock_product_of_row [simp]: "stock (product_of_row r) = c_stock r"
  by (simp add: product_of_row_def)

text \<open>
  With a matching row, the call writes the new stock of the first matching row and then
  raises at line 253; no log entry is appended.
\<close>

lemma update_stock_found:
  assumes "index_where (\<lambda>p. barcode p = bc) (load_products st) = i # rest"
  shows "update_stock_by_barcode uid now bc delta operator typ note st
           = (Inl TypeError,
              st\<lparr>products := (products st)
                     [i := (products st ! i)\<lparr>c_stock := c_stock (products st ! i) + delta\<rparr>]\<rparr>)"
proof -
  have lt: "i < length (products st)"
    using index_where_Cons(1) [OF assms] by (simp add: load_products_def)
  have "map row_of_product
          ((load_products st)[i := (load_products st ! i)
              \<lparr>stock := stock (load_products st ! i) + delta\<rparr>])
        = (products st)[i := (products st ! i)\<lparr>c_stock := c_stock (products st ! i) + delta\<rparr>]"
    using lt by (simp add: map_update row_of_product_stock load_products_def comp_def)
  then show ?thesis
    using assms
    by (simp add: update_stock_by_barcode_def at_single_key_def save_products_def)
qed

lemma update_stock_cases:
  "(bc \<notin> c_barcode ` set (products st)
      \<and> update_stock_by_barcode uid now bc delta operator typ note st
          = (Inr (False, msg_not_found), st))
   \<or> (\<exists>i < length (products st). c_barcode (products st ! i) = bc
         \<and> (\<forall>j < i. c_barcode (products st ! j) \<noteq> bc)
         \<and> update_stock_by_barcode uid now bc delta operator typ note st
             = (Inl TypeError,
                st\<lparr>products := (products st)
                  [i := (products st ! i)\<lparr>c_stock := c_stock (products st ! i) + delta\<rparr>]\<rparr>))"
proof (cases "index_where (\<lambda>p. barcode p = bc) (load_products st)")
  case Nil
  then have "bc \<notin> c_barcode ` set (products st)"
    by (auto simp: index_where_Nil_iff load_products_def)
  then show ?thesis
    using update_stock_absent by blast
next
  case (Cons i rest)
  note facts = index_where_Cons [OF Cons]
  have lt: "i < length (products st)"
    using facts(1) by (simp add: load_products_def)
  have here: "c_barcode (products st ! i) = bc"
    using facts(2) lt by (simp add: load_products_def)
  have before: "\<forall>j < i. c_barcode (products st ! j) \<noteq> bc"
    using facts(3) lt by (simp add: load_products_def)
  show ?thesis
    using lt here before update_stock_found [OF Cons] by blast
qed

lemma update_stock_keeps_logs:
  "stock_log (snd (update_stock_by_barcode uid now bc delta operator typ note st))
     = stock_log st
   \<and> transactions (snd (update_stock_by_barcode uid now bc delta operator typ note st))
     = transactions st"
  using update_stock_cases [of bc st uid now delta operator "typ" "note"] by auto

lemma update_stock_never_succeeds:
  "fst (update_stock_by_barcode uid now bc delta operator typ note st) \<noteq> Inr (True, msg)"
  using update_stock_cases [of bc st uid now delta operator "typ" "note"] by auto

lemma seed_products:
  "products seed_store =
     [\<lparr>c_category = cat_drinks, c_id = ''a'', c_name = name_water,
       c_barcode = ''6901234567890'', c_bulk_price = Fin 20, c_bulk_quantity = 24,
       c_purchase_price = Fin 1, c_price = Fin 2.5, c_profit_margin = [],
       c_stock = 50, c_location = loc_a1, c_supplier = [], c_image_path = [],
       c_notes = []\<rparr>,
      \<lparr>c_category = cat_food, c_id = ''b'', c_name = name_noodles,
       c_barcode = ''6909876543210'', c_bulk_price = Fin 30, c_bulk_quantity = 20,
       c_purchase_price = Fin 1.5, c_price = Fin 4, c_profit_margin = [],
       c_stock = 30, c_location = loc_b2, c_supplier = [], c_image_path = [],
       c_notes = []\<rparr>]"
  and seed_logs: "stock_log seed_store = []" "transactions seed_store = []"
  by (simp_all add: seed_store_def ensure_inventory_file_def)

lemma index_where_first:
  assumes "xs \<noteq> []" and "P (xs ! 0)"
  shows "\<exists>rest. index_where P xs = 0 # rest"
proof -
  from assms(1) have "[0..<length xs] = 0 # [1..<length xs]"
    by (simp add: upt_conv_Cons)
  with assms(2) show ?thesis
    by (simp add: index_where_def)
qed

subsection \<open>C10: the first of several rows with the barcode\<close>

text \<open>
  C10 (the code departs from it). On a catalog whose two rows both carry barcode
  6901234567890, with stocks 50 and 30, \<open>update_stock_by_barcode\<close> with delta \<open>-2\<close>
  writes stock 48 to the first row and leaves the second at 30, as the claim says, but
  then raises TypeError at \<open>df.at[i].get("name", "")\<close>: the stock log stays empty, so the
  one StockLogEntry the claim promises is never appended.
\<close>

theorem update_stock_duplicate_barcode_no_log:
  "fst (update_stock_by_barcode ''u'' ''t'' ''6901234567890'' (- 2) ''op'' ''sale'' ''n''
          dup_store) = Inl TypeError
   \<and> map c_stock (products (snd (update_stock_by_barcode ''u'' ''t'' ''6901234567890''
          (- 2) ''op'' ''sale'' ''n'' dup_store))) = [48, 30]
   \<and> stock_log (snd (update_stock_by_barcode ''u'' ''t'' ''6901234567890''
          (- 2) ''op'' ''sale'' ''n'' dup_store)) = []"
proof -
  have "\<exists>rest. index_where (\<lambda>p. barcode p = ''6901234567890'') (load_products dup_store)
          = 0 # rest"
    by (rule index_where_first) (simp_all add: load_products_def dup_store_def seed_products)
  then obtain rest where
    "index_where (\<lambda>p. barcode p = ''6901234567890'') (load_products dup_store) = 0 # rest"
    by blast
  from update_stock_found [OF this] show ?thesis
    by (simp add: dup_store_def seed_products seed_logs)
qed

subsection \<open>The catalog editor, in closed form\<close>

lemma add_product_eq:
  "add_product pid uid now f st =
     st\<lparr>products := products st @ [row_of_product (new_product pid f)],
        stock_log :=
          (if f_stock f > 0 \<and> strip (f_barcode f) \<noteq> []
           then stock_log st @
                  [\<lparr>log_id = uid, log_datetime = now, log_barcode = strip (f_barcode f),
                    log_name = Some (strip (f_name f)), change = f_stock f,
                    before_stock = 0, after_stock = f_stock f, log_type = ''in_initial'',
                    log_operator = ''system'', log_note = note_initial\<rparr>]
           else stock_log st)\<rparr>"
  by (simp add: add_product_def save_products_def append_stock_log_def load_products_def
        new_product_def comp_def Let_def)

lemma update_product_not_found:
  assumes "bc \<notin> c_barcode ` set (products st)"
  shows "update_product uid now bc ef st = (False, st)"
proof -
  have "index_where (\<lambda>p. barcode p = bc) (load_products st) = []"
    using assms by (auto simp: index_where_Nil_iff load_products_def)
  then show ?thesis
    by (simp add: update_product_def)
qed

lemma update_product_log:
  "stock_log (snd (update_product uid now bc ef st)) = stock_log st
   \<or> (\<exists>b. stock_log (snd (update_product uid now bc ef st)) =
        stock_log st @
          [\<lparr>log_id = uid, log_datetime = now, log_barcode = bc, log_name = Some (e_name ef),
            change = e_stock ef - b, before_stock = b, after_stock = e_stock ef,
            log_type = ''adjust_manual'', log_operator = op_stock_edit,
            log_note = note_manual\<rparr>])"
  by (cases "index_where (\<lambda>p. barcode p = bc) (load_products st)")
     (auto simp: update_product_def save_products_def append_stock_log_def Let_def)

subsection \<open>C2: the entry of a stock adjustment\<close>

lemma first_match_unique:
  assumes "P i" "\<forall>j < i. \<not> P j" "P k" "\<forall>j < k. \<not> P j"
  shows "i = (k::nat)"
  using assms by (meson linorder_neqE_nat)

text \<open>
  What the three operations do to the stock log. If every entry satisfies
  \<open>after_stock = before_stock + change\<close>, it still does after the add form (which
  appends the \<open>in_initial\<close> entry of \<open>add_product_eq\<close>), after the edit form (the
  \<open>adjust_manual\<close> entry of \<open>update_product_log\<close>) and after
  \<open>update_stock_by_barcode\<close>, which appends nothing. \<open>update_stock_by_barcode\<close> writes
  \<open>before + delta\<close> as the new stock of the first row with the barcode, whatever the
  sign of \<open>delta\<close> and of the result: there is no floor.
\<close>

lemma stock_log_entries_ok:
  assumes "\<forall>e \<in> set (stock_log st). log_entry_ok e"
  shows "(\<forall>e \<in> set (stock_log (snd (update_stock_by_barcode uid now bc delta operator ty
                                   nt st))). log_entry_ok e)
       \<and> (\<forall>e \<in> set (stock_log (add_product pid uid now f st)). log_entry_ok e)
       \<and> (\<forall>e \<in> set (stock_log (snd (update_product uid now bc ef st))). log_entry_ok e)
       \<and> (\<forall>i < length (products st).
            c_barcode (products st ! i) = bc \<longrightarrow>
            (\<forall>j < i. c_barcode (products st ! j) \<noteq> bc) \<longrightarrow>
            c_stock (products (snd (update_stock_by_barcode uid now bc delta operator ty
                                      nt st)) ! i)
              = c_stock (products st ! i) + delta)"
proof (intro conjI)
  show "\<forall>e \<in> set (stock_log (snd (update_stock_by_barcode uid now bc delta operator ty
                                   nt st))). log_entry_ok e"
    using assms by (simp add: update_stock_keeps_logs)
  show "\<forall>e \<in> set (stock_log (add_product pid uid now f st)). log_entry_ok e"
    using assms by (simp add: add_product_eq log_entry_ok_def)
  show "\<forall>e \<in> set (stock_log (snd (update_product uid now bc ef st))). log_entry_ok e"
    using assms update_product_log [of uid now bc ef st]
    by (auto simp: log_entry_ok_def)
  show "\<forall>i < length (products st).
            c_barcode (products st ! i) = bc \<longrightarrow>
            (\<forall>j < i. c_barcode (products st ! j) \<noteq> bc) \<longrightarrow>
            c_stock (products (snd (update_stock_by_barcode uid now bc delta operator ty
                                      nt st)) ! i)
              = c_stock (products st ! i) + delta"
  proof (intro allI impI)
    fix i
    assume lt: "i < length (products st)"
      and here: "c_barcode (products st ! i) = bc"
      and first: "\<forall>j < i. c_barcode (products st ! j) \<noteq> bc"
    from lt here have "bc \<in> c_barcode ` set (products st)"
      by (metis image_eqI nth_mem)
    with update_stock_cases [of bc st uid now delta operator ty nt]
    obtain k where k: "k < length (products st)" "c_barcode (products st ! k) = bc"
        "\<forall>j < k. c_barcode (products st ! j) \<noteq> bc"
      and res: "update_stock_by_barcode uid now bc delta operator ty nt st
             = (Inl TypeError,
                st\<lparr>products := (products st)
                  [k := (products st ! k)\<lparr>c_stock := c_stock (products st ! k) + delta\<rparr>]\<rparr>)"
      by blast
    have "i = k"
      by (rule first_match_unique [where P = "\<lambda>n. c_barcode (products st ! n) = bc"])
         (use here first k in simp_all)
    with res lt show "c_stock (products (snd (update_stock_by_barcode uid now bc delta
        operator ty nt st)) ! i) = c_stock (products st ! i) + delta"
      by simp
  qed
qed



lemma grown_store_eq:
  "products grown_store = products seed_store @
     [\<lparr>c_category = [], c_id = ''c'', c_name = ''tea'', c_barcode = ''777'',
       c_bulk_price = Fin 0, c_bulk_quantity = 0, c_purchase_price = Fin 1,
       c_price = Fin 3, c_profit_margin = [], c_stock = 10, c_location = [],
       c_supplier = [], c_image_path = [], c_notes = []\<rparr>]"
  "stock_log grown_store =
     [\<lparr>log_id = ''l'', log_datetime = ''2024-01-01 08:00:00'', log_barcode = ''777'',
       log_name = Some ''tea'', change = 10, before_stock = 0, after_stock = 10,
       log_type = ''in_initial'', log_operator = ''system'', log_note = note_initial\<rparr>]"
  "transactions grown_store = []"
  by (simp_all add: grown_store_def add_product_eq seed_logs new_product_def
        row_of_product_def write_text_def strip_eval)

subsection \<open>The checkout loop\<close>

lemma checkout_loop_absent:
  assumes "it_barcode it \<notin> c_barcode ` set (products st)"
  shows "checkout_loop uuids clock k (it # its) success messages st
           = checkout_loop uuids clock (Suc k) its False
               (messages @ [failure_message it msg_not_found]) st"
  using assms by (simp add: update_stock_absent)

lemma checkout_loop_present:
  assumes "it_barcode it \<in> c_barcode ` set (products st)"
  shows "\<exists>st'. checkout_loop uuids clock k (it # its) success messages st
                 = (Inl TypeError, st')
               \<and> transactions st' = transactions st \<and> stock_log st' = stock_log st"
  using assms
    update_stock_cases [of "it_barcode it" st "uuids k" "clock k" "- it_qty it" op_cashier
      "''sale''" note_pos]
  by auto

text \<open>
  When the loop returns rather than raises, no line had a known barcode: the workbook is
  as before, every line gave its message, and the flag is true only for an empty cart.
\<close>

lemma checkout_loop_returns:
  assumes "checkout_loop uuids clock k cart success messages st = (Inr (s', m'), st')"
  shows "st' = st
       \<and> s' = (success \<and> cart = [])
       \<and> m' = messages @ map (\<lambda>it. failure_message it msg_not_found) cart
       \<and> (\<forall>it \<in> set cart. it_barcode it \<notin> c_barcode ` set (products st))"
  using assms
proof (induction cart arbitrary: k success messages)
  case Nil
  then show ?case by simp
next
  case (Cons it its)
  show ?case
  proof (cases "it_barcode it \<in> c_barcode ` set (products st)")
    case True
    from checkout_loop_present [OF True, of uuids clock k its success messages] Cons.prems
    show ?thesis by auto
  next
    case False
    from Cons.prems have
      "checkout_loop uuids clock (Suc k) its False
         (messages @ [failure_message it msg_not_found]) st = (Inr (s', m'), st')"
      by (simp only: checkout_loop_absent [OF False])
    from Cons.IH [OF this] False show ?thesis by simp
  qed
qed

lemma checkout_loop_all_absent:
  assumes "\<forall>it \<in> set cart. it_barcode it \<notin> c_barcode ` set (products st)"
  shows "checkout_loop uuids clock k cart success messages st
           = (Inr (success \<and> cart = [],
                   messages @ map (\<lambda>it. failure_message it msg_not_found) cart), st)"
  using assms
proof (induction cart arbitrary: k success messages)
  case Nil
  then show ?case by simp
next
  case (Cons it its)
  then show ?case
    by (simp add: update_stock_absent)
qed

lemma checkout_loop_keeps_ledger:
  "transactions (snd (checkout_loop uuids clock k cart success messages st))
     = transactions st
   \<and> stock_log (snd (checkout_loop uuids clock k cart success messages st)) = stock_log st"
proof (induction cart arbitrary: k success messages)
  case Nil
  show ?case by simp
next
  case (Cons it its)
  show ?case
  proof (cases "it_barcode it \<in> c_barcode ` set (products st)")
    case True
    from checkout_loop_present [OF True, of uuids clock k its success messages]
    show ?thesis by auto
  next
    case False
    show ?thesis
      by (simp only: checkout_loop_absent [OF False] Cons.IH)
  qed
qed

text \<open>The checkout of a cart never reaches the branch that records a transaction.\<close>

lemma checkout_never_completes:
  "fst (checkout uuids clock paid cart st) \<noteq> Completed txn"
proof (cases "checkout_loop uuids clock 0 cart True [] st")
  case (Pair r st')
  show ?thesis
  proof (cases r)
    case (Inl e)
    with Pair show ?thesis by (simp add: checkout_def)
  next
    case (Inr sm)
    obtain s' m' where sm: "sm = (s', m')" by (cases sm)
    from checkout_loop_returns [of uuids clock 0 cart True "[]" st s' m' st'] Pair Inr sm
    have "s' = (cart = [])" by simp
    with Pair Inr sm show ?thesis
      by (auto simp: checkout_def)
  qed
qed

lemma checkout_store:
  "cart \<noteq> [] \<Longrightarrow>
   snd (snd (checkout uuids clock paid cart st))
     = snd (checkout_loop uuids clock 0 cart True [] st)
   \<and> fst (snd (checkout uuids clock paid cart st)) = cart"
proof (cases "checkout_loop uuids clock 0 cart True [] st")
  case (Pair r st')
  assume ne: "cart \<noteq> []"
  show ?thesis
  proof (cases r)
    case (Inl e)
    with Pair ne show ?thesis by (simp add: checkout_def)
  next
    case (Inr sm)
    obtain s' m' where sm: "sm = (s', m')" by (cases sm)
    from checkout_loop_returns [of uuids clock 0 cart True "[]" st s' m' st'] Pair Inr sm ne
    have "\<not> s'" by simp
    with Pair Inr sm ne show ?thesis
      by (simp add: checkout_def)
  qed
qed

lemma seed_update_first:
  "update_stock_by_barcode uid now ''6901234567890'' delta operator typ note seed_store
     = (Inl TypeError,
        seed_store\<lparr>products := (products seed_store)
          [0 := (products seed_store ! 0)\<lparr>c_stock := 50 + delta\<rparr>]\<rparr>)"
proof -
  have "\<exists>rest. index_where (\<lambda>p. barcode p = ''6901234567890'') (load_products seed_store)
          = 0 # rest"
    by (rule index_where_first) (simp_all add: load_products_def seed_products)
  then obtain rest where
    "index_where (\<lambda>p. barcode p = ''6901234567890'') (load_products seed_store) = 0 # rest"
    by blast
  from update_stock_found [OF this] show ?thesis
    by (simp add: seed_products)
qed

subsection \<open>C6: the successful checkout\<close>

text \<open>
  C6 (the code departs from it). The example of the specification: a cart with one line,
  price 2.5 and quantity 2, for a product with stock 50, and 10.0 paid. The claim
  promises total 5.0, change 5.0, one Transaction and an emptied cart. The code writes
  stock 48 and then raises TypeError inside \<open>update_stock_by_barcode\<close>: no transaction
  and no stock-log entry is appended and the cart is kept.
\<close>

theorem checkout_spec_example_raises:
  "fst (checkout demo_uuids demo_clock 10
          [cart_line ''6901234567890'' name_water 2.5 2] seed_store) = Raised TypeError
   \<and> fst (snd (checkout demo_uuids demo_clock 10
          [cart_line ''6901234567890'' name_water 2.5 2] seed_store))
       = [cart_line ''6901234567890'' name_water 2.5 2]
   \<and> transactions (snd (snd (checkout demo_uuids demo_clock 10
          [cart_line ''6901234567890'' name_water 2.5 2] seed_store))) = []
   \<and> stock_log (snd (snd (checkout demo_uuids demo_clock 10
          [cart_line ''6901234567890'' name_water 2.5 2] seed_store))) = []
   \<and> map c_stock (products (snd (snd (checkout demo_uuids demo_clock 10
          [cart_line ''6901234567890'' name_water 2.5 2] seed_store)))) = [48, 30]"
  by (simp add: checkout_def cart_line_def seed_update_first seed_products seed_logs)

subsection \<open>C1: a checkout with a failing line\<close>

text \<open>
  C1 as stated fails. In the cart \<open>ghost_cart\<close> the first line has an unknown barcode and
  its stock adjustment fails; the loop has no \<open>break\<close>, goes on to the second line, and
  the second line's decrement is written: its product's stock goes from 50 to 48.
\<close>

theorem checkout_goes_on_counterexample:
  "fst (update_stock_by_barcode (demo_uuids 0) (demo_clock 0) (it_barcode (ghost_cart ! 0))
          (- it_qty (ghost_cart ! 0)) op_cashier ''sale'' note_pos seed_store)
     = Inr (False, msg_not_found)
   \<and> map c_stock (products seed_store) = [50, 30]
   \<and> map c_stock (products (snd (snd (checkout demo_uuids demo_clock 6 ghost_cart
          seed_store)))) = [48, 30]"
proof -
  have absent: "''0000'' \<notin> c_barcode ` set (products seed_store)"
    by (simp add: seed_products)
  show ?thesis
    by (simp add: ghost_cart_def cart_line_def checkout_def
          update_stock_absent [OF absent] seed_update_first seed_products)
qed

text \<open>
  C1, amended. When some line of the cart has a barcode that is in no catalog row:
  no Transaction is recorded (the outcome is never \<open>Completed\<close> and the transaction
  sheet is unchanged), the cart is not cleared, and the workbook is left as the loop over
  the lines left it, with nothing rolled back. Such a line changes nothing, adds its
  failure message, and the loop goes on with the lines after it. When every line of the
  cart is such a line, the outcome is the list of failure messages, one per line in cart
  order, and the workbook is unchanged.
\<close>

theorem checkout_failing_line:
  assumes "it \<in> set cart" and "it_barcode it \<notin> c_barcode ` set (products st)"
  shows "(\<forall>txn. fst (checkout uuids clock paid cart st) \<noteq> Completed txn)
       \<and> transactions (snd (snd (checkout uuids clock paid cart st))) = transactions st
       \<and> fst (snd (checkout uuids clock paid cart st)) = cart
       \<and> snd (snd (checkout uuids clock paid cart st))
           = snd (checkout_loop uuids clock 0 cart True [] st)
       \<and> (\<forall>k its success messages.
            checkout_loop uuids clock k (it # its) success messages st
              = checkout_loop uuids clock (Suc k) its False
                  (messages @ [failure_message it msg_not_found]) st)
       \<and> ((\<forall>x \<in> set cart. it_barcode x \<notin> c_barcode ` set (products st)) \<longrightarrow>
            checkout uuids clock paid cart st
              = (Failed (map (\<lambda>x. failure_message x msg_not_found) cart), cart, st))"
proof -
  from assms(1) have ne: "cart \<noteq> []" by auto
  have never: "\<forall>txn. fst (checkout uuids clock paid cart st) \<noteq> Completed txn"
    by (simp add: checkout_never_completes)
  have store: "snd (snd (checkout uuids clock paid cart st))
                 = snd (checkout_loop uuids clock 0 cart True [] st)"
    and kept: "fst (snd (checkout uuids clock paid cart st)) = cart"
    using checkout_store [OF ne] by simp_all
  have ledger: "transactions (snd (snd (checkout uuids clock paid cart st)))
                  = transactions st"
    by (simp only: store checkout_loop_keeps_ledger)
  have goes_on: "\<forall>k its success messages.
            checkout_loop uuids clock k (it # its) success messages st
              = checkout_loop uuids clock (Suc k) its False
                  (messages @ [failure_message it msg_not_found]) st"
    using checkout_loop_absent [OF assms(2)] by blast
  have all_fail: "(\<forall>x \<in> set cart. it_barcode x \<notin> c_barcode ` set (products st)) \<longrightarrow>
            checkout uuids clock paid cart st
              = (Failed (map (\<lambda>x. failure_message x msg_not_found) cart), cart, st)"
    using ne by (simp add: checkout_def checkout_loop_all_absent)
  from never ledger kept store goes_on all_fail show ?thesis
    by blast
qed

theorem checkout_failing_line_witness:
  "ghost_only_cart ! 0 \<in> set ghost_only_cart
   \<and> it_barcode (ghost_only_cart ! 0) \<notin> c_barcode ` set (products seed_store)
   \<and> checkout demo_uuids demo_clock 7 ghost_only_cart seed_store
       = (Failed [''ghost: '' @ msg_not_found, ''phantom: '' @ msg_not_found],
          ghost_only_cart, seed_store)"
proof -
  have h1: "ghost_only_cart ! 0 \<in> set ghost_only_cart"
    by (simp add: ghost_only_cart_def)
  have h2: "it_barcode (ghost_only_cart ! 0) \<notin> c_barcode ` set (products seed_store)"
    by (simp add: ghost_only_cart_def cart_line_def seed_products)
  have h3: "\<forall>x \<in> set ghost_only_cart. it_barcode x \<notin> c_barcode ` set (products seed_store)"
    by (simp add: ghost_only_cart_def cart_line_def seed_products)
  have msgs: "map (\<lambda>x. failure_message x msg_not_found) ghost_only_cart
                = [''ghost: '' @ msg_not_found, ''phantom: '' @ msg_not_found]"
    by (simp add: ghost_only_cart_def cart_line_def failure_message_def astype_str_def)
  from checkout_failing_line [OF h1 h2, of demo_uuids demo_clock 7] h3
  have "checkout demo_uuids demo_clock 7 ghost_only_cart seed_store
          = (Failed (map (\<lambda>x. failure_message x msg_not_found) ghost_only_cart),
             ghost_only_cart, seed_store)"
    by blast
  with h1 h2 msgs show ?thesis
    by simp
qed

subsection \<open>C4: lookup by barcode\<close>

lemma lstrip_Nil [simp]: "lstrip [] = []"
  by (simp add: lstrip_def)

lemma is_space2_lead: "is_space2 a b \<Longrightarrow> a = CHR 0xC2"
  by (auto simp: is_space2_def space_chars_def)

lemma is_space3_lead: "is_space3 a b c \<Longrightarrow> a = CHR 0xE1 \<or> a = CHR 0xE2 \<or> a = CHR 0xE3"
  by (auto simp: is_space3_def space_chars_def)

lemma not_space_lead:
  "\<not> is_space (CHR 0xC2)" "\<not> is_space (CHR 0xE1)" "\<not> is_space (CHR 0xE2)"
  "\<not> is_space (CHR 0xE3)" "\<not> is_space2 (CHR 0xE1) b" "\<not> is_space2 (CHR 0xE2) b"
  "\<not> is_space2 (CHR 0xE3) b"
  by (simp_all add: is_space_def is_space2_def space_chars_def)

lemma lstrip_space1: "is_space a \<Longrightarrow> lstrip (a # s) = lstrip s"
proof (cases s)
  case Nil
  assume "is_space a"
  with Nil show ?thesis by (simp add: lstrip_def)
next
  case (Cons b t)
  assume "is_space a"
  with Cons show ?thesis by (cases t) (simp_all add: lstrip_def)
qed

lemma lstrip_space2: "is_space2 a b \<Longrightarrow> lstrip (a # b # s) = lstrip s"
  using is_space2_lead [of a b] not_space_lead
  by (cases s) (auto simp: lstrip_def)

lemma lstrip_space3: "is_space3 a b c \<Longrightarrow> lstrip (a # b # c # s) = lstrip s"
  using is_space3_lead [of a b c] not_space_lead
  by (auto simp: lstrip_def)

lemma space_chars_shape:
  assumes "w \<in> set space_chars"
  shows "(\<exists>a. w = [a] \<and> is_space a) \<or> (\<exists>a b. w = [a, b] \<and> is_space2 a b)
       \<or> (\<exists>a b c. w = [a, b, c] \<and> is_space3 a b c)"
proof -
  from assms have "length w = 1 \<or> length w = 2 \<or> length w = 3"
    by (auto simp: space_chars_def)
  then show ?thesis
    using assms
    by (auto simp: length_Suc_conv numeral_2_eq_2 numeral_3_eq_3 is_space_def is_space2_def
          is_space3_def)
qed

lemma lstrip_space_char: "w \<in> set space_chars \<Longrightarrow> lstrip (w @ s) = lstrip s"
  using space_chars_shape [of w]
  by (auto simp: lstrip_space1 lstrip_space2 lstrip_space3)

lemma lstrip_blank: "set ws \<subseteq> set space_chars \<Longrightarrow> lstrip (concat ws) = []"
  by (induction ws) (simp_all add: lstrip_space_char)

text \<open>A string made of whitespace characters only strips to the empty string.\<close>

lemma strip_blank: "set ws \<subseteq> set space_chars \<Longrightarrow> strip (concat ws) = []"
  by (simp add: strip_def lstrip_blank rstrip_def)

lemma strip_all_space:
  assumes "\<forall>c \<in> set s. is_space c"
  shows "strip s = []"
proof -
  have "s = concat (map (\<lambda>c. [c]) s)"
    by (induction s) simp_all
  moreover from assms have "set (map (\<lambda>c. [c]) s) \<subseteq> set space_chars"
    by (auto simp: is_space_def)
  ultimately show ?thesis
    using strip_blank [of "map (\<lambda>c. [c]) s"] by simp
qed

lemma filter_key_distinct:
  assumes "distinct (map f xs)"
  shows "length (filter (\<lambda>x. f x = b) xs) \<le> 1"
  using assms
proof (induction xs)
  case Nil
  then show ?case by simp
next
  case (Cons x xs)
  show ?case
  proof (cases "f x = b")
    case True
    with Cons.prems have "\<forall>y \<in> set xs. f y \<noteq> b"
      by (auto simp: image_iff)
    then have "filter (\<lambda>x. f x = b) xs = []"
      by (simp add: filter_empty_conv)
    with True show ?thesis by simp
  next
    case False
    with Cons show ?thesis by simp
  qed
qed

text \<open>
  C4 as stated fails: nothing keeps barcodes unique, and \<open>search_by_barcode\<close> returns
  every row with the barcode. On the catalog whose two rows both carry 6901234567890 it
  returns two products.
\<close>

theorem search_by_barcode_two_counterexample:
  "length (search_by_barcode ''6901234567890'' (load_products dup_store)) = 2"
  by (simp add: search_by_barcode_def strip_eval load_products_def dup_store_def
        seed_products product_of_row_def Let_def)

text \<open>
  C4, amended. \<open>search_by_barcode\<close> returns exactly the catalog rows whose barcode is
  the stripped input, by equality of strings and in catalog order: never a partial or
  fuzzy match. When no two rows share a barcode there is at most one result. An empty
  input, and an input made of whitespace characters only, gives no result.
\<close>

theorem search_by_barcode_exact:
  "search_by_barcode bc df = filter (\<lambda>p. barcode p = strip bc \<and> strip bc \<noteq> []) df
   \<and> (\<forall>p \<in> set (search_by_barcode bc df). p \<in> set df \<and> barcode p = strip bc)
   \<and> (\<forall>p \<in> set df. barcode p = strip bc \<and> strip bc \<noteq> [] \<longrightarrow>
         p \<in> set (search_by_barcode bc df))
   \<and> (distinct (map barcode df) \<longrightarrow> length (search_by_barcode bc df) \<le> 1)
   \<and> search_by_barcode [] df = []
   \<and> (set ws \<subseteq> set space_chars \<longrightarrow> search_by_barcode (concat ws) df = [])
   \<and> ((\<forall>c \<in> set bc. is_space c) \<longrightarrow> search_by_barcode bc df = [])"
proof (intro conjI)
  show "search_by_barcode bc df = filter (\<lambda>p. barcode p = strip bc \<and> strip bc \<noteq> []) df"
    by (simp add: search_by_barcode_def Let_def)
  show "\<forall>p \<in> set (search_by_barcode bc df). p \<in> set df \<and> barcode p = strip bc"
    by (simp add: search_by_barcode_def Let_def)
  show "\<forall>p \<in> set df. barcode p = strip bc \<and> strip bc \<noteq> [] \<longrightarrow>
          p \<in> set (search_by_barcode bc df)"
    by (simp add: search_by_barcode_def Let_def)
  show "distinct (map barcode df) \<longrightarrow> length (search_by_barcode bc df) \<le> 1"
    using filter_key_distinct [of barcode df "strip bc"]
    by (simp add: search_by_barcode_def Let_def)
  show "search_by_barcode [] df = []"
    by (simp add: search_by_barcode_def Let_def strip_def rstrip_def)
  show "set ws \<subseteq> set space_chars \<longrightarrow> search_by_barcode (concat ws) df = []"
    by (simp add: search_by_barcode_def Let_def strip_blank)
  show "(\<forall>c \<in> set bc. is_space c) \<longrightarrow> search_by_barcode bc df = []"
    by (simp add: search_by_barcode_def Let_def strip_all_space)
qed

theorem search_by_barcode_exact_witness:
  "distinct (map barcode (load_products seed_store))
   \<and> search_by_barcode '' 6901234567890 '' (load_products seed_store)
       = [load_products seed_store ! 0]
   \<and> search_by_barcode ''6901234567890'' (load_products dup_store)
       = [load_products dup_store ! 0, load_products dup_store ! 1]
   \<and> set [[CHR 0xE3, CHR 0x80, CHR 0x80], '' ''] \<subseteq> set space_chars
   \<and> search_by_barcode ([CHR 0xE3, CHR 0x80, CHR 0x80] @ '' '') (load_products seed_store)
       = []"
proof -
  have d: "distinct (map barcode (load_products seed_store))"
    by (simp add: load_products_def seed_products)
  have st: "strip '' 6901234567890 '' = ''6901234567890''"
      "strip ''6901234567890'' = ''6901234567890''"
    by (simp_all add: strip_eval)
  have sp: "set [[CHR 0xE3, CHR 0x80, CHR 0x80], '' ''] \<subseteq> set space_chars"
    by (simp add: space_chars_def)
  have a: "search_by_barcode '' 6901234567890 '' (load_products seed_store)
       = filter (\<lambda>p. barcode p = strip '' 6901234567890 ''
                       \<and> strip '' 6901234567890 '' \<noteq> []) (load_products seed_store)"
    by (rule conjunct1 [OF search_by_barcode_exact])
  have b: "search_by_barcode ''6901234567890'' (load_products dup_store)
       = filter (\<lambda>p. barcode p = strip ''6901234567890''
                       \<and> strip ''6901234567890'' \<noteq> []) (load_products dup_store)"
    by (rule conjunct1 [OF search_by_barcode_exact])
  have c: "set [[CHR 0xE3, CHR 0x80, CHR 0x80], '' ''] \<subseteq> set space_chars \<longrightarrow>
      search_by_barcode (concat [[CHR 0xE3, CHR 0x80, CHR 0x80], '' ''])
        (load_products seed_store) = []"
    by (rule search_by_barcode_exact [THEN conjunct2, THEN conjunct2, THEN conjunct2,
          THEN conjunct2, THEN conjunct2, THEN conjunct1])
  have r1: "search_by_barcode '' 6901234567890 '' (load_products seed_store)
       = [load_products seed_store ! 0]"
    unfolding a st by (simp add: load_products_def seed_products)
  have r2: "search_by_barcode ''6901234567890'' (load_products dup_store)
       = [load_products dup_store ! 0, load_products dup_store ! 1]"
    unfolding b st by (simp add: load_products_def dup_store_def seed_products)
  have r3: "search_by_barcode ([CHR 0xE3, CHR 0x80, CHR 0x80] @ '' '') (load_products seed_store)
          = []"
    using c [rule_format, OF sp] by simp
  show ?thesis
    by (intro conjI d r1 r2 sp r3)
qed

subsection \<open>C3: lookup by name\<close>

lemma length_head_df: "0 \<le> n \<Longrightarrow> int (length (head_df n xs)) \<le> n"
  by (simp add: head_df_def)

text \<open>
  What holds of \<open>search_by_name\<close> on the substring path: with a non-negative limit, a
  search that does not take the fuzzy fallback returns at most \<open>limit\<close> rows; the
  fallback is taken only with the capability present and no substring match; with no
  substring match and no capability the result is empty.
\<close>

lemma search_by_name_substring_path:
  assumes "search_by_name fuzzy cont q df limit = Inr rs"
    and "cont (strip q) = Inr m"
    and "fuzzy = None \<or> (\<exists>p \<in> set df. m (astype_str (name p)))"
    and "0 \<le> limit"
  shows "int (length rs) \<le> limit"
proof -
  have "filter (\<lambda>p. m (astype_str (name p))) df \<noteq> []" if "\<exists>p \<in> set df. m (astype_str (name p))"
    using that by (simp add: filter_empty_conv)
  then have "fuzzy = None \<or> 1 \<le> length (filter (\<lambda>p. m (astype_str (name p))) df)"
    using assms(3) by (cases "filter (\<lambda>p. m (astype_str (name p))) df") auto
  with assms(1,2) have "rs = [] \<or> rs = head_df limit (filter (\<lambda>p. m (astype_str (name p))) df)"
    by (auto simp: search_by_name_def Let_def split: if_splits option.splits)
  with assms(4) show ?thesis
    using length_head_df [of limit "filter (\<lambda>p. m (astype_str (name p))) df"] by auto
qed

lemma search_by_name_no_fuzzy_no_match:
  assumes "cont (strip q) = Inr m" and "\<forall>p \<in> set df. \<not> m (astype_str (name p))"
  shows "search_by_name None cont q df limit = Inr []"
proof -
  from assms(2) have "filter (\<lambda>p. m (astype_str (name p))) df = []"
    by (simp add: filter_empty_conv)
  with assms(1) show ?thesis
    by (simp add: search_by_name_def Let_def head_df_def)
qed

text \<open>
  C3 (the code departs from it). Two products are both named cola; the query kola is a
  substring of no name, so with the fuzzy capability the fallback runs with
  \<open>limit = 1\<close>. \<open>process.extract\<close> returns one name, cola, and the code then returns every
  row whose name is in that list: two rows, more than the limit.
\<close>

theorem search_by_name_exceeds_limit:
  "search_by_name (Some first_choices) plain_contains ''kola'' (load_products cola_store) 1
     = Inr (load_products cola_store)
   \<and> length (load_products cola_store) = 2"
  by (simp add: search_by_name_def Let_def strip_eval plain_contains_def
        first_choices_def load_products_def cola_store_def seed_products product_of_row_def
        read_text_def astype_str_def)

subsection \<open>C8: adding a product\<close>



subsection \<open>C9: deleting a product\<close>

lemma delete_product_eq:
  "delete_product bc st = st\<lparr>products := filter (\<lambda>r. c_barcode r \<noteq> bc) (products st)\<rparr>"
  by (simp add: delete_product_def save_products_def load_products_def filter_map comp_def)

text \<open>
  C9. The delete block keeps exactly the rows whose barcode differs from the given one,
  in order, and writes them back; no row with the barcode remains; the stock log and the
  transactions are untouched. It has no failure outcome. When no row has the barcode the
  workbook is unchanged, and deleting twice leaves the same workbook as deleting once.
\<close>

theorem delete_product_effect:
  "products (delete_product bc st) = filter (\<lambda>r. c_barcode r \<noteq> bc) (products st)
   \<and> bc \<notin> c_barcode ` set (products (delete_product bc st))
   \<and> stock_log (delete_product bc st) = stock_log st
   \<and> transactions (delete_product bc st) = transactions st
   \<and> (bc \<notin> c_barcode ` set (products st) \<longrightarrow> delete_product bc st = st)
   \<and> delete_product bc (delete_product bc st) = delete_product bc st"
proof -
  have "filter (\<lambda>r. c_barcode r \<noteq> bc) (products st) = products st"
    if "bc \<notin> c_barcode ` set (products st)"
    using that by (auto simp: filter_id_conv)
  then show ?thesis
    by (auto simp: delete_product_eq)
qed

theorem delete_product_effect_witness:
  "''0000'' \<notin> c_barcode ` set (products seed_store)
   \<and> delete_product ''0000'' seed_store = seed_store
   \<and> map c_barcode (products (delete_product ''6901234567890'' dup_store)) = []
   \<and> map c_barcode (products (delete_product ''6901234567890'' seed_store))
       = [''6909876543210'']"
proof -
  have h: "''0000'' \<notin> c_barcode ` set (products seed_store)"
    by (simp add: seed_products)
  note a = delete_product_effect [of "''0000''" seed_store]
  note b = delete_product_effect [of "''6901234567890''" dup_store]
  note c = delete_product_effect [of "''6901234567890''" seed_store]
  from a h have "delete_product ''0000'' seed_store = seed_store"
    by blast
  moreover from b have "map c_barcode (products (delete_product ''6901234567890'' dup_store)) = []"
    by (simp add: dup_store_def seed_products)
  moreover from c
  have "map c_barcode (products (delete_product ''6901234567890'' seed_store))
          = [''6909876543210'']"
    by (simp add: seed_products)
  ultimately show ?thesis
    using h by blast
qed

subsection \<open>C7: loading the catalog\<close>

lemma rename_columns_id:
  assumes "\<not> (\<exists>c \<in> set cs. COLUMN_MAP c \<noteq> None)"
  shows "rename_columns cs = cs"
  using assms by (induction cs) (auto simp: rename_columns_def)

lemma rename_columns_idem: "rename_columns (rename_columns cs) = rename_columns cs"
  by (induction cs) (auto simp: rename_columns_def COLUMN_MAP_def split: label.splits)

lemma load_products_sheet_eq:
  "load_products_sheet tn ov (Inr u) (Inr (cols, rows))
     = (if distinct (rename_columns cols)
        then Loaded (normalize_frame tn ov (rename_columns cols) rows)
        else DuplicateColumns)"
  using rename_columns_id [of cols]
  by (auto simp: load_products_sheet_def Let_def)

lemma column_value_missing:
  assumes "col \<notin> set cs"
  shows "column_value cs row col = None"
proof -
  from assms have "col \<notin> fst ` set (zip cs row)"
    by (auto dest: set_zip_leftD)
  then have "map_of (zip cs row) col = None"
    by (simp add: map_of_eq_None_iff)
  then show ?thesis by (simp add: column_value_def)
qed

lemma series_astype_int_length:
  "series_astype_int ov vs = Inr ns \<Longrightarrow> length ns = length vs"
  by (induction vs arbitrary: ns) (auto split: sum.splits)

lemma length_to_int_column [simp]: "length (to_int_column tn ov cells) = length cells"
  by (auto simp: to_int_column_def dest: series_astype_int_length split: sum.splits)

text \<open>The conversion of a column raises exactly when a value is not finite.\<close>

lemma series_astype_int_raises:
  "(\<exists>e. series_astype_int ov vs = Inl e) \<longleftrightarrow> (\<exists>v \<in> set vs. \<forall>r. v \<noteq> Fin r)"
  by (induction vs) (auto simp: astype_int_def split: sum.splits pyfloat.splits)

lemma series_astype_int_nth:
  assumes "series_astype_int ov vs = Inr ns" and "i < length vs"
  shows "astype_int ov (vs ! i) = Inr (ns ! i)"
  using assms
proof (induction vs arbitrary: ns i)
  case Nil
  then show ?case by simp
next
  case (Cons v vs)
  then show ?case
    by (cases i) (auto split: sum.splits)
qed

lemma fillna_zero_finite:
  "(\<forall>r. fillna_zero v \<noteq> Fin r) \<longleftrightarrow> v = PosInf \<or> v = NegInf"
  by (cases v) (simp_all add: fillna_zero_def)

lemma to_int_column_infinite:
  assumes "\<exists>c \<in> set cells. to_numeric_cell tn c = PosInf \<or> to_numeric_cell tn c = NegInf"
  shows "to_int_column tn ov cells = replicate (length cells) 0"
proof -
  from assms have "\<exists>v \<in> set (map (\<lambda>v. fillna_zero (to_numeric_cell tn v)) cells).
      \<forall>r. v \<noteq> Fin r"
    by (auto simp: fillna_zero_finite)
  then obtain e where
    "series_astype_int ov (map (\<lambda>v. fillna_zero (to_numeric_cell tn v)) cells) = Inl e"
    using series_astype_int_raises by blast
  then show ?thesis
    by (simp add: to_int_column_def)
qed

lemma to_int_column_finite:
  assumes "\<forall>c \<in> set cells. to_numeric_cell tn c \<noteq> PosInf \<and> to_numeric_cell tn c \<noteq> NegInf"
    and "i < length cells"
  shows "astype_int ov (fillna_zero (to_numeric_cell tn (cells ! i)))
           = Inr (to_int_column tn ov cells ! i)"
proof -
  let ?vs = "map (\<lambda>v. fillna_zero (to_numeric_cell tn v)) cells"
  from assms(1) have "\<not> (\<exists>v \<in> set ?vs. \<forall>r. v \<noteq> Fin r)"
    by (auto simp: fillna_zero_finite)
  then have "\<not> (\<exists>e. series_astype_int ov ?vs = Inl e)"
    using series_astype_int_raises [of ov ?vs] by blast
  then obtain ns where ns: "series_astype_int ov ?vs = Inr ns"
    by (cases "series_astype_int ov ?vs") auto
  from series_astype_int_nth [OF ns, of i] assms(2)
  have "astype_int ov (fillna_zero (to_numeric_cell tn (cells ! i))) = Inr (ns ! i)"
    by simp
  with ns show ?thesis
    by (simp add: to_int_column_def)
qed

lemma to_int_column_not_number:
  assumes "i < length cells" and "\<forall>r. to_numeric_cell tn (cells ! i) \<noteq> Fin r"
  shows "to_int_column tn ov cells ! i = 0"
proof (cases "\<exists>c \<in> set cells. to_numeric_cell tn c = PosInf \<or> to_numeric_cell tn c = NegInf")
  case True
  with assms(1) show ?thesis
    by (simp add: to_int_column_infinite)
next
  case False
  then have fin: "\<forall>c \<in> set cells. to_numeric_cell tn c \<noteq> PosInf \<and> to_numeric_cell tn c \<noteq> NegInf"
    by blast
  with assms(1) have "to_numeric_cell tn (cells ! i) \<noteq> PosInf"
      "to_numeric_cell tn (cells ! i) \<noteq> NegInf"
    by simp_all
  with assms(2) have "to_numeric_cell tn (cells ! i) = NaN"
    by (cases "to_numeric_cell tn (cells ! i)") simp_all
  with to_int_column_finite [OF fin assms(1), of ov] show ?thesis
    by (simp add: fillna_zero_def astype_int_def int64_range_def trunc_zero_def)
qed

lemma to_int_column_number:
  assumes "\<forall>c \<in> set cells. to_numeric_cell tn c \<noteq> PosInf \<and> to_numeric_cell tn c \<noteq> NegInf"
    and "i < length cells" and "to_numeric_cell tn (cells ! i) = Fin r"
  shows "to_int_column tn ov cells ! i
           = (if int64_range (trunc_zero r) then trunc_zero r else ov r)"
  using to_int_column_finite [OF assms(1,2), of ov] assms(3)
  by (simp add: fillna_zero_def astype_int_def)

lemma map_zip3_fst:
  assumes "length ss = length rows" and "length qs = length rows"
  shows "map (\<lambda>(row, s, q). g row) (zip rows (zip ss qs)) = map g rows"
    and "map (\<lambda>(row, s, q). s) (zip rows (zip ss qs)) = ss"
    and "map (\<lambda>(row, s, q). q) (zip rows (zip ss qs)) = qs"
proof -
  have "map (\<lambda>(row, s, q). g row) (zip rows (zip ss qs)) = map (g \<circ> fst) (zip rows (zip ss qs))"
    by (simp add: case_prod_unfold comp_def)
  also have "\<dots> = map g rows"
    using assms by (simp add: map_fst_zip flip: map_map)
  finally show "map (\<lambda>(row, s, q). g row) (zip rows (zip ss qs)) = map g rows" .
  have "map (\<lambda>(row, s, q). s) (zip rows (zip ss qs))
          = map fst (map snd (zip rows (zip ss qs)))"
    by (simp add: case_prod_unfold comp_def)
  also have "\<dots> = ss"
    using assms by (simp add: map_snd_zip map_fst_zip)
  finally show "map (\<lambda>(row, s, q). s) (zip rows (zip ss qs)) = ss" .
  have "map (\<lambda>(row, s, q). q) (zip rows (zip ss qs))
          = map snd (map snd (zip rows (zip ss qs)))"
    by (simp add: case_prod_unfold comp_def)
  also have "\<dots> = qs"
    using assms by (simp add: map_snd_zip)
  finally show "map (\<lambda>(row, s, q). q) (zip rows (zip ss qs)) = qs" .
qed

lemma normalize_frame_field:
  assumes "\<And>row s q. f (normalize_row tn cs row s q) = g row"
  shows "map f (normalize_frame tn ov cs rows) = map g rows"
proof -
  have "map f (normalize_frame tn ov cs rows)
          = map (\<lambda>(row, s, q). g row)
              (zip rows (zip (to_int_column tn ov (column_cells cs rows (Internal Stock)))
                 (to_int_column tn ov (column_cells cs rows (Internal BulkQuantity)))))"
    by (simp add: normalize_frame_def Let_def case_prod_unfold comp_def assms)
  also have "\<dots> = map g rows"
    by (rule map_zip3_fst(1)) (simp_all add: column_cells_def)
  finally show ?thesis .
qed

lemma normalize_frame_stock:
  "map stock (normalize_frame tn ov cs rows)
     = to_int_column tn ov (column_cells cs rows (Internal Stock))"
proof -
  have "map stock (normalize_frame tn ov cs rows)
          = map (\<lambda>(row, s, q). s)
              (zip rows (zip (to_int_column tn ov (column_cells cs rows (Internal Stock)))
                 (to_int_column tn ov (column_cells cs rows (Internal BulkQuantity)))))"
    by (simp add: normalize_frame_def Let_def case_prod_unfold comp_def normalize_row_def)
  also have "\<dots> = to_int_column tn ov (column_cells cs rows (Internal Stock))"
    by (rule map_zip3_fst(2)) (simp_all add: column_cells_def)
  finally show ?thesis .
qed

lemma normalize_frame_quantity:
  "map bulk_quantity (normalize_frame tn ov cs rows)
     = to_int_column tn ov (column_cells cs rows (Internal BulkQuantity))"
proof -
  have "map bulk_quantity (normalize_frame tn ov cs rows)
          = map (\<lambda>(row, s, q). q)
              (zip rows (zip (to_int_column tn ov (column_cells cs rows (Internal Stock)))
                 (to_int_column tn ov (column_cells cs rows (Internal BulkQuantity)))))"
    by (simp add: normalize_frame_def Let_def case_prod_unfold comp_def normalize_row_def)
  also have "\<dots> = to_int_column tn ov (column_cells cs rows (Internal BulkQuantity))"
    by (rule map_zip3_fst(3)) (simp_all add: column_cells_def)
  finally show ?thesis .
qed

lemma length_normalize_frame: "length (normalize_frame tn ov cs rows) = length rows"
  by (simp add: normalize_frame_def Let_def column_cells_def)


lemma digits_to_numeric_samples:
  "digits_to_numeric ''12'' = Fin 12" "digits_to_numeric ''3'' = Fin 3"
  "digits_to_numeric ''7'' = Fin 7" "digits_to_numeric ''inf'' = PosInf"
  "digits_to_numeric ''many'' = NaN" "digits_to_numeric ''n/a'' = NaN"
  by (simp_all add: digits_to_numeric_def)

text \<open>
  C7 as stated fails in one case: \<open>ensure_inventory_file()\<close> is called before the
  \<open>try\<close> block, so when the workbook is missing and cannot be written its exception
  leaves \<open>load_products\<close>.
\<close>

theorem load_products_raises_counterexample:
  "load_products_sheet digits_to_numeric least_int64 (Inl OSError) (Inr sample_sheet)
     = Raises OSError"
  by (simp add: load_products_sheet_def)

text \<open>
  C7, amended. \<open>load_products\<close> raises only the exception of \<open>ensure_inventory_file()\<close>;
  once that has returned it does not raise. A failed read gives the empty catalog. A
  catalog that is returned for a sheet has one product per row, and a sheet with
  localized headers loads as the same sheet with internal headers does. Column by column:
  the cells of a missing column are missing; id and barcode are the cell, the empty string
  when it is missing; the other text fields and \<open>expiry_date\<close> are the cell;
  \<open>price\<close>, \<open>purchase_price\<close> and \<open>bulk_price\<close> are the number parsed, NaN when the cell
  is missing (and when the parser gives NaN); \<open>stock\<close> and \<open>bulk_quantity\<close> are integers,
  0 wherever the cell is missing or not a finite number. When a cell of such a column
  parses to an infinity the whole column is 0; otherwise a finite number is rounded
  towards zero when that is an int64.
\<close>

theorem load_products_sheet_normalizes:
  "(load_products_sheet tn ov ens rd = Raises e' \<longleftrightarrow> ens = Inl e')
   \<and> load_products_sheet tn ov (Inr u) (Inl e) = Loaded []
   \<and> (load_products_sheet tn ov (Inr u) (Inr (cols, rows)) = Loaded df \<longrightarrow>
        df = normalize_frame tn ov (rename_columns cols) rows)
   \<and> ((\<exists>df. load_products_sheet tn ov (Inr u) (Inr (cols, rows)) = Loaded df)
        \<longleftrightarrow> distinct (rename_columns cols))
   \<and> load_products_sheet tn ov (Inr u) (Inr (rename_columns cols, rows))
       = load_products_sheet tn ov (Inr u) (Inr (cols, rows))
   \<and> length (normalize_frame tn ov cs rows) = length rows
   \<and> (col \<notin> set cs \<longrightarrow> column_cells cs rows col = replicate (length rows) None)
   \<and> map id_field (normalize_frame tn ov cs rows)
       = map fillna_str (column_cells cs rows (Internal Id))
   \<and> map barcode (normalize_frame tn ov cs rows)
       = map fillna_str (column_cells cs rows (Internal Barcode))
   \<and> fillna_str None = []
   \<and> map name (normalize_frame tn ov cs rows) = column_cells cs rows (Internal Name)
   \<and> map category (normalize_frame tn ov cs rows) = column_cells cs rows (Internal Category)
   \<and> map profit_margin (normalize_frame tn ov cs rows)
       = column_cells cs rows (Internal ProfitMargin)
   \<and> map location (normalize_frame tn ov cs rows) = column_cells cs rows (Internal Location)
   \<and> map supplier (normalize_frame tn ov cs rows) = column_cells cs rows (Internal Supplier)
   \<and> map image_path (normalize_frame tn ov cs rows)
       = column_cells cs rows (Internal ImagePath)
   \<and> map notes_field (normalize_frame tn ov cs rows) = column_cells cs rows (Internal Notes)
   \<and> map expiry_date (normalize_frame tn ov cs rows) = column_cells cs rows ExpiryDate
   \<and> map price (normalize_frame tn ov cs rows)
       = map (to_numeric_cell tn) (column_cells cs rows (Internal Price))
   \<and> map purchase_price (normalize_frame tn ov cs rows)
       = map (to_numeric_cell tn) (column_cells cs rows (Internal PurchasePrice))
   \<and> map bulk_price (normalize_frame tn ov cs rows)
       = map (to_numeric_cell tn) (column_cells cs rows (Internal BulkPrice))
   \<and> to_numeric_cell tn None = NaN
   \<and> map stock (normalize_frame tn ov cs rows)
       = to_int_column tn ov (column_cells cs rows (Internal Stock))
   \<and> map bulk_quantity (normalize_frame tn ov cs rows)
       = to_int_column tn ov (column_cells cs rows (Internal BulkQuantity))
   \<and> length (to_int_column tn ov cells) = length cells
   \<and> (\<forall>i < length cells. (\<forall>r. to_numeric_cell tn (cells ! i) \<noteq> Fin r) \<longrightarrow>
         to_int_column tn ov cells ! i = 0)
   \<and> ((\<exists>c \<in> set cells. to_numeric_cell tn c = PosInf \<or> to_numeric_cell tn c = NegInf) \<longrightarrow>
         to_int_column tn ov cells = replicate (length cells) 0)
   \<and> ((\<forall>c \<in> set cells. to_numeric_cell tn c \<noteq> PosInf \<and> to_numeric_cell tn c \<noteq> NegInf) \<longrightarrow>
         (\<forall>i < length cells. \<forall>r. to_numeric_cell tn (cells ! i) = Fin r \<longrightarrow>
            to_int_column tn ov cells ! i
              = (if int64_range (trunc_zero r) then trunc_zero r else ov r)))"
proof -
  have raises: "load_products_sheet tn ov ens rd = Raises e' \<longleftrightarrow> ens = Inl e'"
    by (cases ens; cases rd)
       (auto simp: load_products_sheet_def Let_def split: prod.splits)
  have fail: "load_products_sheet tn ov (Inr u) (Inl e) = Loaded []"
    by (simp add: load_products_sheet_def)
  have loaded: "load_products_sheet tn ov (Inr u) (Inr (cols, rows)) = Loaded df \<longrightarrow>
        df = normalize_frame tn ov (rename_columns cols) rows"
    by (simp add: load_products_sheet_eq)
  have success: "(\<exists>df. load_products_sheet tn ov (Inr u) (Inr (cols, rows)) = Loaded df)
        \<longleftrightarrow> distinct (rename_columns cols)"
    by (simp add: load_products_sheet_eq)
  have labels: "load_products_sheet tn ov (Inr u) (Inr (rename_columns cols, rows))
       = load_products_sheet tn ov (Inr u) (Inr (cols, rows))"
    by (simp add: load_products_sheet_eq rename_columns_idem)
  have missing: "col \<notin> set cs \<longrightarrow> column_cells cs rows col = replicate (length rows) None"
    by (simp add: column_cells_def column_value_missing map_replicate_const)
  have ids:
    "map id_field (normalize_frame tn ov cs rows)
       = map fillna_str (column_cells cs rows (Internal Id))"
    "map barcode (normalize_frame tn ov cs rows)
       = map fillna_str (column_cells cs rows (Internal Barcode))"
    by (simp_all only: column_cells_def map_map)
       (rule normalize_frame_field, simp add: normalize_row_def)+
  have defaults: "fillna_str None = []" "to_numeric_cell tn None = NaN"
    by (simp_all add: fillna_str_def to_numeric_cell_def)
  have texts:
    "map name (normalize_frame tn ov cs rows) = column_cells cs rows (Internal Name)"
    "map category (normalize_frame tn ov cs rows) = column_cells cs rows (Internal Category)"
    "map profit_margin (normalize_frame tn ov cs rows)
       = column_cells cs rows (Internal ProfitMargin)"
    "map location (normalize_frame tn ov cs rows) = column_cells cs rows (Internal Location)"
    "map supplier (normalize_frame tn ov cs rows) = column_cells cs rows (Internal Supplier)"
    "map image_path (normalize_frame tn ov cs rows)
       = column_cells cs rows (Internal ImagePath)"
    "map notes_field (normalize_frame tn ov cs rows) = column_cells cs rows (Internal Notes)"
    "map expiry_date (normalize_frame tn ov cs rows) = column_cells cs rows ExpiryDate"
    by (simp_all only: column_cells_def)
       (rule normalize_frame_field, simp add: normalize_row_def)+
  have prices:
    "map price (normalize_frame tn ov cs rows)
       = map (to_numeric_cell tn) (column_cells cs rows (Internal Price))"
    "map purchase_price (normalize_frame tn ov cs rows)
       = map (to_numeric_cell tn) (column_cells cs rows (Internal PurchasePrice))"
    "map bulk_price (normalize_frame tn ov cs rows)
       = map (to_numeric_cell tn) (column_cells cs rows (Internal BulkPrice))"
    by (simp_all only: column_cells_def map_map)
       (rule normalize_frame_field, simp add: normalize_row_def)+
  have zero: "\<forall>i < length cells. (\<forall>r. to_numeric_cell tn (cells ! i) \<noteq> Fin r) \<longrightarrow>
         to_int_column tn ov cells ! i = 0"
    using to_int_column_not_number [of _ cells tn ov] by blast
  have infinite:
    "(\<exists>c \<in> set cells. to_numeric_cell tn c = PosInf \<or> to_numeric_cell tn c = NegInf) \<longrightarrow>
         to_int_column tn ov cells = replicate (length cells) 0"
    using to_int_column_infinite [of cells tn ov] by blast
  have finite:
    "(\<forall>c \<in> set cells. to_numeric_cell tn c \<noteq> PosInf \<and> to_numeric_cell tn c \<noteq> NegInf) \<longrightarrow>
         (\<forall>i < length cells. \<forall>r. to_numeric_cell tn (cells ! i) = Fin r \<longrightarrow>
            to_int_column tn ov cells ! i
              = (if int64_range (trunc_zero r) then trunc_zero r else ov r))"
    using to_int_column_number [of cells tn _ _ ov] by blast
  show ?thesis
    by (intro conjI raises fail loaded success labels length_normalize_frame missing ids
          defaults texts prices normalize_frame_stock normalize_frame_quantity
          length_to_int_column zero infinite finite)
qed

theorem load_products_sheet_normalizes_witness:
  "distinct (rename_columns (fst sample_sheet))
   \<and> load_products_sheet digits_to_numeric least_int64 (Inr ()) (Inr sample_sheet)
       = Loaded (normalize_frame digits_to_numeric least_int64
                   (rename_columns (fst sample_sheet)) (snd sample_sheet))
   \<and> map (\<lambda>p. (name p, barcode p, stock p, price p, category p, bulk_quantity p))
        (normalize_frame digits_to_numeric least_int64
           (rename_columns (fst sample_sheet)) (snd sample_sheet))
       = [(Some ''tea'', ''777'', 0, Fin 3, None, 7), (Some ''mug'', [], 0, NaN, None, 0)]
   \<and> to_numeric_cell digits_to_numeric (Some ''inf'') = PosInf
   \<and> to_int_column digits_to_numeric least_int64 [Some ''12'', Some ''inf''] = [0, 0]
   \<and> to_int_column digits_to_numeric least_int64 [Some ''7'', Some ''many''] ! 0 = 7
   \<and> to_int_column digits_to_numeric least_int64 [Some ''7'', Some ''many''] ! 1 = 0"
proof -
  note cell = to_numeric_cell_def digits_to_numeric_samples
  have d: "distinct (rename_columns (fst sample_sheet))"
    by (simp add: sample_sheet_def rename_columns_def COLUMN_MAP_def)
  have inf: "to_numeric_cell digits_to_numeric (Some ''inf'') = PosInf"
    by (simp add: cell)
  note sheet = load_products_sheet_normalizes
    [of digits_to_numeric least_int64 _ _ _ "()" _ "fst sample_sheet" "snd sample_sheet"]
  from sheet d obtain df where
    "load_products_sheet digits_to_numeric least_int64 (Inr ())
       (Inr (fst sample_sheet, snd sample_sheet)) = Loaded df"
    by blast
  with sheet have ld: "load_products_sheet digits_to_numeric least_int64 (Inr ())
       (Inr sample_sheet)
     = Loaded (normalize_frame digits_to_numeric least_int64
                 (rename_columns (fst sample_sheet)) (snd sample_sheet))"
    by simp
  have rows: "map (\<lambda>p. (name p, barcode p, stock p, price p, category p, bulk_quantity p))
        (normalize_frame digits_to_numeric least_int64
           (rename_columns (fst sample_sheet)) (snd sample_sheet))
       = [(Some ''tea'', ''777'', 0, Fin 3, None, 7), (Some ''mug'', [], 0, NaN, None, 0)]"
    by (simp add: sample_sheet_def rename_columns_def COLUMN_MAP_def normalize_frame_def
          normalize_row_def column_cells_def column_value_def fillna_str_def cell
          to_int_column_def fillna_zero_def astype_int_def int64_range_def trunc_zero_def
          Let_def)
  note col1 = load_products_sheet_normalizes
    [where tn = digits_to_numeric and ov = least_int64
       and cells = "[Some ''12'', Some ''inf'']"]
  have c1: "to_int_column digits_to_numeric least_int64 [Some ''12'', Some ''inf''] = [0, 0]"
    using col1 inf by (simp add: numeral_2_eq_2)
  note col2 = load_products_sheet_normalizes
    [where tn = digits_to_numeric and ov = least_int64
       and cells = "[Some ''7'', Some ''many'']"]
  have fin2: "\<forall>c \<in> set [Some ''7'', Some ''many''].
      to_numeric_cell digits_to_numeric c \<noteq> PosInf
      \<and> to_numeric_cell digits_to_numeric c \<noteq> NegInf"
    by (simp add: cell)
  have v0: "to_numeric_cell digits_to_numeric ([Some ''7'', Some ''many''] ! 0) = Fin 7"
    and v1: "\<forall>r. to_numeric_cell digits_to_numeric ([Some ''7'', Some ''many''] ! 1) \<noteq> Fin r"
    by (simp_all add: cell)
  from col2 fin2 v0
  have c2: "to_int_column digits_to_numeric least_int64 [Some ''7'', Some ''many''] ! 0 = 7"
    by (simp add: int64_range_def trunc_zero_def)
  from col2 v1
  have c3: "to_int_column digits_to_numeric least_int64 [Some ''7'', Some ''many''] ! 1 = 0"
    by simp
  show ?thesis
    by (intro conjI d ld rows inf c1 c2 c3)
qed

end
